theory Spec2Isabelle
  imports Complex_Main
begin

section \<open>Python values, exceptions and the operations the module uses\<close>

text \<open>
  The module \<^verbatim>\<open>mcp_helper.py\<close> works on decoded JSON: dictionaries, lists, strings,
  numbers, booleans and \<^verbatim>\<open>None\<close>. A dictionary keeps its insertion order and is an
  association list; a look-up takes the first binding of a key. Floating-point numbers
  are values of a type parameter \<open>'f\<close>: their arithmetic and their printing belong to
  the interpreter and are supplied by the record \<open>python\<close> below, so that nothing
  proved here assumes exact arithmetic.
\<close>

datatype 'f json =
    JNull
  | JBool bool
  | JInt int
  | JFloat 'f
  | JStr string
  | JArr "'f json list"
  | JObj "(string \<times> 'f json) list"

text \<open>
  An exception is its class and the text that \<^verbatim>\<open>str(e)\<close> gives.
  \<open>RequestException\<close> stands for \<^verbatim>\<open>requests.exceptions.RequestException\<close> and its
  subclasses, \<open>PlainException\<close> for \<^verbatim>\<open>Exception\<close> itself, \<open>LibraryError\<close> for
  any other exception class raised inside a library. The texts of the exceptions that
  the interpreter raises follow the wording of CPython 3; of these, the properties below
  rely only on \<^verbatim>\<open>division by zero\<close> and on the quoted key of a KeyError. Text is a
  list of characters; the module compares, concatenates and replaces text and never
  looks inside a character.
\<close>

datatype exn_class =
    ValueError | KeyError | IndexError | TypeError | AttributeError
  | ZeroDivisionError | OverflowError | RequestException | PlainException | LibraryError

datatype exn = Raise exn_class string

fun exn_str :: "exn \<Rightarrow> string" where
  "exn_str (Raise c msg) = msg"

fun bind_exn :: "exn + 'a \<Rightarrow> ('a \<Rightarrow> exn + 'b) \<Rightarrow> exn + 'b" where
  "bind_exn (Inl e) f = Inl e"
| "bind_exn (Inr v) f = f v"

text \<open>A number is an int or a float.\<close>

datatype 'f pynum = NInt int | NFloat 'f

text \<open>
  What the interpreter and its standard library do and the module does not define:
  floating-point arithmetic, \<^verbatim>\<open>round\<close>, number formatting, \<^verbatim>\<open>repr\<close> of containers,
  \<^verbatim>\<open>json.loads\<close>, \<^verbatim>\<open>json.dumps\<close>, \<^verbatim>\<open>base64.b64decode\<close> followed by
  \<^verbatim>\<open>.decode('utf-8')\<close>; and what differs between versions and builds of the
  interpreter: the float loop of \<^verbatim>\<open>sum\<close> (a plain running sum up to CPython 3.11, a
  compensated one from 3.12), the range of a C \<^verbatim>\<open>long\<close>, and the limit on the number
  of digits of an int that is converted to text (4300 by default from CPython 3.11,
  \<open>0\<close> for no limit).
\<close>

record 'f python =
  float_lit :: "string \<Rightarrow> 'f"                  \<comment> \<open>the value of a float literal such as \<^verbatim>\<open>0.95\<close>\<close>
  float_of_int :: "int \<Rightarrow> 'f option"            \<comment> \<open>\<^verbatim>\<open>float(i)\<close>; \<open>None\<close> is OverflowError\<close>
  float_add :: "'f \<Rightarrow> 'f \<Rightarrow> 'f"
  float_mul :: "'f \<Rightarrow> 'f \<Rightarrow> 'f"
  float_div :: "'f \<Rightarrow> 'f \<Rightarrow> 'f"                \<comment> \<open>divisor not zero\<close>
  int_truediv :: "int \<Rightarrow> int \<Rightarrow> 'f option"      \<comment> \<open>\<^verbatim>\<open>i / j\<close>, \<open>j\<close> not zero; \<open>None\<close> is OverflowError\<close>
  float_is_zero :: "'f \<Rightarrow> bool"
  float_round2 :: "'f \<Rightarrow> 'f"                     \<comment> \<open>\<^verbatim>\<open>round(x, 2)\<close>\<close>
  float_fmt2f :: "'f \<Rightarrow> string"                  \<comment> \<open>\<^verbatim>\<open>format(x, '.2f')\<close>\<close>
  float_str :: "'f \<Rightarrow> string"                    \<comment> \<open>\<^verbatim>\<open>str(x)\<close>\<close>
  float_sum :: "'f \<Rightarrow> 'f pynum list \<Rightarrow> 'f"        \<comment> \<open>the float loop of \<^verbatim>\<open>sum\<close>: start value, values absorbed\<close>
  fits_long :: "int \<Rightarrow> bool"                     \<comment> \<open>the int fits a C \<^verbatim>\<open>long\<close>\<close>
  int_max_str_digits :: nat                       \<comment> \<open>\<^verbatim>\<open>sys.get_int_max_str_digits()\<close>\<close>
  container_str :: "'f json \<Rightarrow> string"           \<comment> \<open>\<^verbatim>\<open>str\<close> of a list or a dict\<close>
  json_loads :: "string \<Rightarrow> exn + 'f json"
  json_dumps :: "'f json \<Rightarrow> exn + string"          \<comment> \<open>with \<^verbatim>\<open>ensure_ascii=False\<close>\<close>
  b64decode_utf8 :: "string \<Rightarrow> exn + string"

definition quote :: "string \<Rightarrow> string" where
  "quote s = [CHR 0x27] @ s @ [CHR 0x27]"

fun type_name :: "'f json \<Rightarrow> string" where
  "type_name JNull = ''NoneType''"
| "type_name (JBool b) = ''bool''"
| "type_name (JInt i) = ''int''"
| "type_name (JFloat x) = ''float''"
| "type_name (JStr s) = ''str''"
| "type_name (JArr xs) = ''list''"
| "type_name (JObj kvs) = ''dict''"

definition digit_char :: "nat \<Rightarrow> char" where
  "digit_char d = char_of (48 + d)"

fun show_nat :: "nat \<Rightarrow> string" where
  "show_nat n = (if n < 10 then [digit_char n] else show_nat (n div 10) @ [digit_char (n mod 10)])"

definition show_int :: "int \<Rightarrow> string" where
  "show_int i = (if i < 0 then CHR ''-'' # show_nat (nat (- i)) else show_nat (nat i))"

text \<open>
  \<^verbatim>\<open>f"{v}"\<close> and \<^verbatim>\<open>str(v)\<close> for a value that was decoded from JSON. Such a value
  holds no int beyond the digit limit, since \<^verbatim>\<open>json.loads\<close> refuses one, so the
  conversion of an int does not raise.
\<close>

fun py_format :: "'f python \<Rightarrow> 'f json \<Rightarrow> string" where
  "py_format py JNull = ''None''"
| "py_format py (JBool b) = (if b then ''True'' else ''False'')"
| "py_format py (JInt i) = show_int i"
| "py_format py (JFloat x) = float_str py x"
| "py_format py (JStr s) = s"
| "py_format py (JArr xs) = container_str py (JArr xs)"
| "py_format py (JObj kvs) = container_str py (JObj kvs)"

text \<open>
  \<^verbatim>\<open>f"{v}"\<close> where an int beyond the digit limit can arrive: a sum or a product of
  ints that the module has computed, or a value handed to the formatter. The conversion
  of such an int to text raises ValueError.
\<close>

definition within_digit_limit :: "'f python \<Rightarrow> int \<Rightarrow> bool" where
  "within_digit_limit py i =
     (int_max_str_digits py = 0 \<or> length (show_nat (nat \<bar>i\<bar>)) \<le> int_max_str_digits py)"

definition int_text :: "'f python \<Rightarrow> int \<Rightarrow> exn + string" where
  "int_text py i =
     (if within_digit_limit py i then Inr (show_int i)
      else Inl (Raise ValueError (''Exceeds the limit ('' @ show_nat (int_max_str_digits py)
             @ '' digits) for integer string conversion; ''
             @ ''use sys.set_int_max_str_digits() to increase the limit'')))"

fun py_format_computed :: "'f python \<Rightarrow> 'f json \<Rightarrow> exn + string" where
  "py_format_computed py (JInt i) = int_text py i"
| "py_format_computed py v = Inr (py_format py v)"

text \<open>
  A value as \<^verbatim>\<open>json.loads\<close> can return it under the digit limit: no int in it, at any
  depth, is beyond the limit. The text of a list or a dict is the interpreter's
  (\<open>container_str\<close>) for such values.
\<close>

fun decoded_value :: "'f python \<Rightarrow> 'f json \<Rightarrow> bool" where
  "decoded_value py (JInt i) = within_digit_limit py i"
| "decoded_value py (JArr xs) = list_all (decoded_value py) xs"
| "decoded_value py (JObj kvs) = list_all (\<lambda>kv. decoded_value py (snd kv)) kvs"
| "decoded_value py v = True"

text \<open>\<^verbatim>\<open>f"{v:.2f}"\<close>.\<close>

fun py_format_2f :: "'f python \<Rightarrow> 'f json \<Rightarrow> exn + string" where
  "py_format_2f py (JFloat x) = Inr (float_fmt2f py x)"
| "py_format_2f py (JInt i) =
     (case float_of_int py i of
        None \<Rightarrow> Inl (Raise OverflowError ''int too large to convert to float'')
      | Some x \<Rightarrow> Inr (float_fmt2f py x))"
| "py_format_2f py (JBool b) =
     (case float_of_int py (if b then 1 else 0) of
        None \<Rightarrow> Inl (Raise OverflowError ''int too large to convert to float'')
      | Some x \<Rightarrow> Inr (float_fmt2f py x))"
| "py_format_2f py (JStr s) =
     Inl (Raise ValueError (''Unknown format code '' @ quote ''f'' @ '' for object of type '' @ quote ''str''))"
| "py_format_2f py v =
     Inl (Raise TypeError (''unsupported format string passed to '' @ type_name v @ ''.__format__''))"

text \<open>Truth value of a Python object (\<^verbatim>\<open>not v\<close> is its negation).\<close>

fun py_truthy :: "'f python \<Rightarrow> 'f json \<Rightarrow> bool" where
  "py_truthy py JNull = False"
| "py_truthy py (JBool b) = b"
| "py_truthy py (JInt i) = (i \<noteq> 0)"
| "py_truthy py (JFloat x) = (\<not> float_is_zero py x)"
| "py_truthy py (JStr s) = (s \<noteq> [])"
| "py_truthy py (JArr xs) = (xs \<noteq> [])"
| "py_truthy py (JObj kvs) = (kvs \<noteq> [])"

text \<open>The method call \<^verbatim>\<open>obj.get(k, dflt)\<close>, which only a dictionary has.\<close>

fun get_method :: "'f json \<Rightarrow> string \<Rightarrow> 'f json \<Rightarrow> exn + 'f json" where
  "get_method (JObj kvs) k dflt = Inr (case map_of kvs k of None \<Rightarrow> dflt | Some v \<Rightarrow> v)"
| "get_method v k dflt =
     Inl (Raise AttributeError (quote (type_name v) @ '' object has no attribute '' @ quote ''get''))"

text \<open>\<^verbatim>\<open>obj['k']\<close> with a string key.\<close>

fun getitem_key :: "'f json \<Rightarrow> string \<Rightarrow> exn + 'f json" where
  "getitem_key (JObj kvs) k =
     (case map_of kvs k of None \<Rightarrow> Inl (Raise KeyError (quote k)) | Some v \<Rightarrow> Inr v)"
| "getitem_key (JArr xs) k = Inl (Raise TypeError ''list indices must be integers or slices, not str'')"
| "getitem_key (JStr s) k =
     Inl (Raise TypeError (''string indices must be integers, not '' @ quote ''str''))"
| "getitem_key v k = Inl (Raise TypeError (quote (type_name v) @ '' object is not subscriptable''))"

text \<open>\<^verbatim>\<open>obj[i]\<close> with an index \<open>i \<ge> 0\<close> (the module only indexes with \<open>0\<close> and \<^verbatim>\<open>range\<close>).\<close>

fun getitem_idx :: "'f json \<Rightarrow> nat \<Rightarrow> exn + 'f json" where
  "getitem_idx (JArr xs) i =
     (if i < length xs then Inr (xs ! i) else Inl (Raise IndexError ''list index out of range''))"
| "getitem_idx (JStr s) i =
     (if i < length s then Inr (JStr [s ! i]) else Inl (Raise IndexError ''string index out of range''))"
| "getitem_idx (JObj kvs) i = Inl (Raise KeyError (show_nat i))"
| "getitem_idx v i = Inl (Raise TypeError (quote (type_name v) @ '' object is not subscriptable''))"

fun py_len :: "'f json \<Rightarrow> exn + nat" where
  "py_len (JArr xs) = Inr (length xs)"
| "py_len (JStr s) = Inr (length s)"
| "py_len (JObj kvs) = Inr (length kvs)"
| "py_len v = Inl (Raise TypeError (''object of type '' @ quote (type_name v) @ '' has no len()''))"

text \<open>Iteration (\<^verbatim>\<open>for row in v\<close>): a list gives its elements, a dict its keys, a str its characters.\<close>

fun py_iter :: "'f json \<Rightarrow> exn + 'f json list" where
  "py_iter (JArr xs) = Inr xs"
| "py_iter (JObj kvs) = Inr (map (\<lambda>kv. JStr (fst kv)) kvs)"
| "py_iter (JStr s) = Inr (map (\<lambda>c. JStr [c]) s)"
| "py_iter v = Inl (Raise TypeError (quote (type_name v) @ '' object is not iterable''))"

fun contains_str :: "string \<Rightarrow> string \<Rightarrow> bool" where
  "contains_str k [] = (k = [])"
| "contains_str k (c # cs) = (take (length k) (c # cs) = k \<or> contains_str k cs)"

text \<open>\<^verbatim>\<open>'k' in v\<close>.\<close>

fun py_contains :: "string \<Rightarrow> 'f json \<Rightarrow> exn + bool" where
  "py_contains k (JObj kvs) = Inr (map_of kvs k \<noteq> None)"
| "py_contains k (JArr xs) = Inr (JStr k \<in> set xs)"
| "py_contains k (JStr s) = Inr (contains_str k s)"
| "py_contains k v = Inl (Raise TypeError (''argument of type '' @ quote (type_name v) @ '' is not iterable''))"

subsection \<open>Numbers\<close>

text \<open>\<^verbatim>\<open>bool\<close> is a subclass of \<^verbatim>\<open>int\<close>: \<^verbatim>\<open>True\<close> counts as 1.\<close>

fun as_num :: "'f json \<Rightarrow> 'f pynum option" where
  "as_num (JInt i) = Some (NInt i)"
| "as_num (JBool b) = Some (NInt (if b then 1 else 0))"
| "as_num (JFloat x) = Some (NFloat x)"
| "as_num v = None"

fun to_float :: "'f python \<Rightarrow> 'f pynum \<Rightarrow> exn + 'f" where
  "to_float py (NFloat x) = Inr x"
| "to_float py (NInt i) =
     (case float_of_int py i of
        None \<Rightarrow> Inl (Raise OverflowError ''int too large to convert to float'')
      | Some x \<Rightarrow> Inr x)"

definition operand_error :: "string \<Rightarrow> 'f json \<Rightarrow> 'f json \<Rightarrow> exn" where
  "operand_error opr a b =
     Raise TypeError (''unsupported operand type(s) for '' @ opr @ '': '' @ quote (type_name a)
       @ '' and '' @ quote (type_name b))"

text \<open>\<^verbatim>\<open>a + b\<close>.\<close>

definition py_add :: "'f python \<Rightarrow> 'f json \<Rightarrow> 'f json \<Rightarrow> exn + 'f json" where
  "py_add py a b =
     (case (as_num a, as_num b) of
        (Some (NInt x), Some (NInt y)) \<Rightarrow> Inr (JInt (x + y))
      | (Some x, Some y) \<Rightarrow>
          bind_exn (to_float py x) (\<lambda>x'. bind_exn (to_float py y) (\<lambda>y'. Inr (JFloat (float_add py x' y'))))
      | _ \<Rightarrow>
          (case (a, b) of
             (JStr s, JStr t) \<Rightarrow> Inr (JStr (s @ t))
           | (JArr xs, JArr ys) \<Rightarrow> Inr (JArr (xs @ ys))
           | _ \<Rightarrow> Inl (operand_error ''+'' a b)))"

text \<open>\<^verbatim>\<open>a * b\<close>; a str or a list times an int is a repetition.\<close>

definition py_mul :: "'f python \<Rightarrow> 'f json \<Rightarrow> 'f json \<Rightarrow> exn + 'f json" where
  "py_mul py a b =
     (case (as_num a, as_num b) of
        (Some (NInt x), Some (NInt y)) \<Rightarrow> Inr (JInt (x * y))
      | (Some x, Some y) \<Rightarrow>
          bind_exn (to_float py x) (\<lambda>x'. bind_exn (to_float py y) (\<lambda>y'. Inr (JFloat (float_mul py x' y'))))
      | (None, Some (NInt n)) \<Rightarrow>
          (case a of
             JStr s \<Rightarrow> Inr (JStr (concat (replicate (nat n) s)))
           | JArr xs \<Rightarrow> Inr (JArr (concat (replicate (nat n) xs)))
           | _ \<Rightarrow> Inl (operand_error ''*'' a b))
      | (Some (NInt n), None) \<Rightarrow>
          (case b of
             JStr s \<Rightarrow> Inr (JStr (concat (replicate (nat n) s)))
           | JArr xs \<Rightarrow> Inr (JArr (concat (replicate (nat n) xs)))
           | _ \<Rightarrow> Inl (operand_error ''*'' a b))
      | _ \<Rightarrow> Inl (operand_error ''*'' a b))"

text \<open>\<^verbatim>\<open>a / b\<close>: true division, a float whenever it succeeds.\<close>

definition py_truediv :: "'f python \<Rightarrow> 'f json \<Rightarrow> 'f json \<Rightarrow> exn + 'f json" where
  "py_truediv py a b =
     (case (as_num a, as_num b) of
        (Some (NInt x), Some (NInt y)) \<Rightarrow>
          (if y = 0 then Inl (Raise ZeroDivisionError ''division by zero'')
           else (case int_truediv py x y of
                   None \<Rightarrow> Inl (Raise OverflowError ''integer division result too large for a float'')
                 | Some q \<Rightarrow> Inr (JFloat q)))
      | (Some x, Some y) \<Rightarrow>
          bind_exn (to_float py x) (\<lambda>x'. bind_exn (to_float py y) (\<lambda>y'.
            if float_is_zero py y' then Inl (Raise ZeroDivisionError ''float division by zero'')
            else Inr (JFloat (float_div py x' y'))))
      | _ \<Rightarrow> Inl (operand_error ''/'' a b))"

text \<open>\<^verbatim>\<open>round(v, 2)\<close>: an int is returned as it is.\<close>

definition py_round2 :: "'f python \<Rightarrow> 'f json \<Rightarrow> exn + 'f json" where
  "py_round2 py v =
     (case as_num v of
        Some (NInt i) \<Rightarrow> Inr (JInt i)
      | Some (NFloat x) \<Rightarrow> Inr (JFloat (float_round2 py x))
      | None \<Rightarrow> Inl (Raise TypeError (''type '' @ type_name v @ '' doesn'' @ [CHR 0x27]
                        @ ''t define __round__ method'')))"

text \<open>
  \<^verbatim>\<open>sum(f(row) for row in rows)\<close>, in the three stages of the built-in. Each step
  evaluates \<open>f\<close> on the next row, so that an exception of \<open>f\<close> comes after the
  additions before it. The last stage adds with \<^verbatim>\<open>+\<close>, one value after the other.
\<close>

fun py_sum_from :: "'f python \<Rightarrow> ('f json \<Rightarrow> exn + 'f json) \<Rightarrow> 'f json \<Rightarrow> 'f json list \<Rightarrow> exn + 'f json" where
  "py_sum_from py f acc [] = Inr acc"
| "py_sum_from py f acc (row # rows) =
     bind_exn (f row) (\<lambda>v. bind_exn (py_add py acc v) (\<lambda>acc'. py_sum_from py f acc' rows))"

text \<open>
  The float loop: it runs while the values are floats or ints that fit a C
  \<^verbatim>\<open>long\<close>, and what it returns for them is the interpreter's. Any other value ends
  it: the value is added with \<^verbatim>\<open>+\<close> and the last stage takes over.
\<close>

definition absorbed :: "'f python \<Rightarrow> 'f json \<Rightarrow> 'f pynum option" where
  "absorbed py v =
     (case as_num v of
        Some (NFloat x) \<Rightarrow> Some (NFloat x)
      | Some (NInt i) \<Rightarrow> if fits_long py i then Some (NInt i) else None
      | None \<Rightarrow> None)"

fun sum_float_loop ::
  "'f python \<Rightarrow> ('f json \<Rightarrow> exn + 'f json) \<Rightarrow> 'f \<Rightarrow> 'f pynum list \<Rightarrow> 'f json list \<Rightarrow> exn + 'f json" where
  "sum_float_loop py f a run [] = Inr (JFloat (float_sum py a run))"
| "sum_float_loop py f a run (row # rows) =
     bind_exn (f row) (\<lambda>v.
       case absorbed py v of
         Some n \<Rightarrow> sum_float_loop py f a (run @ [n]) rows
       | None \<Rightarrow>
           bind_exn (py_add py (JFloat (float_sum py a run)) v) (\<lambda>acc. py_sum_from py f acc rows))"

text \<open>
  The int loop: it runs from the int \<open>0\<close> while the values are ints (or bools) and
  the running total fits a C \<^verbatim>\<open>long\<close>. The first other value is added with \<^verbatim>\<open>+\<close>;
  if that gives a float the float loop follows, otherwise the last stage.
\<close>

definition after_int_loop ::
  "'f python \<Rightarrow> ('f json \<Rightarrow> exn + 'f json) \<Rightarrow> 'f json \<Rightarrow> 'f json list \<Rightarrow> exn + 'f json" where
  "after_int_loop py f acc rows =
     (case acc of
        JFloat a \<Rightarrow> sum_float_loop py f a [] rows
      | _ \<Rightarrow> py_sum_from py f acc rows)"

fun sum_int_loop ::
  "'f python \<Rightarrow> ('f json \<Rightarrow> exn + 'f json) \<Rightarrow> int \<Rightarrow> 'f json list \<Rightarrow> exn + 'f json" where
  "sum_int_loop py f i [] = Inr (JInt i)"
| "sum_int_loop py f i (row # rows) =
     bind_exn (f row) (\<lambda>v.
       case (case v of JInt x \<Rightarrow> Some x | JBool b \<Rightarrow> Some (if b then 1 else 0) | _ \<Rightarrow> None) of
         Some x \<Rightarrow>
           if fits_long py x \<and> fits_long py (i + x) then sum_int_loop py f (i + x) rows
           else bind_exn (py_add py (JInt i) v) (\<lambda>acc. after_int_loop py f acc rows)
       | None \<Rightarrow> bind_exn (py_add py (JInt i) v) (\<lambda>acc. after_int_loop py f acc rows))"

definition py_sum :: "'f python \<Rightarrow> ('f json \<Rightarrow> exn + 'f json) \<Rightarrow> 'f json list \<Rightarrow> exn + 'f json" where
  "py_sum py f rows = sum_int_loop py f 0 rows"

text \<open>\<^verbatim>\<open>s.replace(old, new)\<close>: every non-overlapping occurrence, from the left.\<close>

function replace :: "string \<Rightarrow> string \<Rightarrow> string \<Rightarrow> string" where
  "replace s old new =
     (if old = [] then new @ concat (map (\<lambda>c. c # new) s)
      else if s = [] then []
      else if take (length old) s = old then new @ replace (drop (length old) s) old new
      else hd s # replace (tl s) old new)"
  by pat_completeness auto
termination
  by (relation "measure (\<lambda>(s, old, new). length s)") (auto simp: Suc_le_eq)

text \<open>\<^verbatim>\<open>sep.join(xs)\<close>.\<close>

fun join :: "string \<Rightarrow> string list \<Rightarrow> string" where
  "join sep [] = []"
| "join sep [x] = x"
| "join sep (x # y # ys) = x @ sep @ join sep (y # ys)"

section \<open>Module variables\<close>

definition site_url :: string where
  "site_url = ''sc-domain:www.yourdomain.ai''"


text \<open>
  What the process and the remote services supply: the two environment variables (the
  module reads \<^verbatim>\<open>SEARCH_CONSOLE_KEY\<close> once, into \<^verbatim>\<open>gsc_base64_key\<close>), the successive
  readings of \<^verbatim>\<open>datetime.now().strftime("%Y-%m-%d %H:%M:%S")\<close>, the language-model
  endpoint (\<^verbatim>\<open>requests.post\<close>, \<^verbatim>\<open>raise_for_status\<close> and \<^verbatim>\<open>response.json()\<close> taken
  together), the Google client library and the reporting service.
\<close>

record ('f, 'cred, 'svc) env =
  gsc_base64_key :: "string option"
  gemini_api_key :: "string option"
  clock :: "nat \<Rightarrow> string"
  requests_post :: "string \<Rightarrow> 'f json \<Rightarrow> exn + 'f json"
  from_service_account_info :: "'f json \<Rightarrow> string list \<Rightarrow> exn + 'cred"
  build :: "string \<Rightarrow> string \<Rightarrow> 'cred \<Rightarrow> exn + 'svc"
  searchanalytics_query :: "'svc \<Rightarrow> string \<Rightarrow> 'f json \<Rightarrow> exn + 'f json"

text \<open>The requests a run sends to the two remote services, in order.\<close>

datatype 'f call = GeminiPost string "'f json" | GscQuery string "'f json"

section \<open>Credentials and the reporting service\<close>

text \<open>The parameter \<open>base64_key\<close> may be any object; the body never reads it.\<close>

definition credentials_from_base64_env ::
  "'f python \<Rightarrow> ('f, 'cred, 'svc) env \<Rightarrow> 'k \<Rightarrow> string list \<Rightarrow> exn + 'cred" where
  "credentials_from_base64_env py ev base64_key scopes =
     (case gsc_base64_key ev of
        None \<Rightarrow> Inl (Raise ValueError
                 (''Environment variable '' @ quote ''None'' @ '' not found or is empty.''))
      | Some encoded_key \<Rightarrow>
          if encoded_key = [] then
            Inl (Raise ValueError
                 (''Environment variable '' @ quote [] @ '' not found or is empty.''))
          else
            bind_exn (b64decode_utf8 py encoded_key) (\<lambda>decoded.
            bind_exn (json_loads py decoded) (\<lambda>key_info.
            from_service_account_info ev key_info scopes)))"

definition create_gsc_service_obj ::
  "'f python \<Rightarrow> ('f, 'cred, 'svc) env \<Rightarrow> 'k \<Rightarrow> exn + 'svc" where
  "create_gsc_service_obj py ev base64_key =
     (let base64_key' = gsc_base64_key ev;
          scope = [''https://www.googleapis.com/auth/webmasters.readonly'']
      in bind_exn (credentials_from_base64_env py ev base64_key' scope) (\<lambda>credentials.
         build ev ''webmasters'' ''v3'' credentials))"

fun for_each :: "('a \<Rightarrow> exn + unit) \<Rightarrow> 'a list \<Rightarrow> exn + unit" where
  "for_each f [] = Inr ()"
| "for_each f (x # xs) = bind_exn (f x) (\<lambda>_. for_each f xs)"

fun map_exn :: "('a \<Rightarrow> exn + 'b) \<Rightarrow> 'a list \<Rightarrow> exn + 'b list" where
  "map_exn f [] = Inr []"
| "map_exn f (x # xs) = bind_exn (f x) (\<lambda>y. bind_exn (map_exn f xs) (\<lambda>ys. Inr (y # ys)))"

text \<open>A dictionary key must be hashable: a list or a dict is not.\<close>

fun check_hashable :: "'f json \<Rightarrow> exn + unit" where
  "check_hashable (JArr xs) = Inl (Raise TypeError (''unhashable type: '' @ quote ''list''))"
| "check_hashable (JObj kvs) = Inl (Raise TypeError (''unhashable type: '' @ quote ''dict''))"
| "check_hashable v = Inr ()"

text \<open>
  One pass of the loop of \<^verbatim>\<open>make_gsc_api_request\<close> over a row. The dictionary
  \<^verbatim>\<open>data\<close> it fills is appended to \<^verbatim>\<open>results\<close>, which the function then drops (it
  returns \<^verbatim>\<open>response\<close>); what is left of the pass is whether it raises. In
  \<^verbatim>\<open>data[payload['dimensions'][i]] = row['keys'][i]\<close> the right-hand side is evaluated
  first.
\<close>

definition clean_row :: "'f python \<Rightarrow> 'f json \<Rightarrow> 'f json \<Rightarrow> exn + unit" where
  "clean_row py payload row =
     bind_exn (getitem_key payload ''dimensions'') (\<lambda>dims.
     bind_exn (py_len dims) (\<lambda>n.
     bind_exn (for_each (\<lambda>i.
         bind_exn (getitem_key row ''keys'') (\<lambda>ks.
         bind_exn (getitem_idx ks i) (\<lambda>v.
         bind_exn (getitem_key payload ''dimensions'') (\<lambda>ds.
         bind_exn (getitem_idx ds i) check_hashable)))) [0..<n]) (\<lambda>_.
     bind_exn (getitem_key row ''clicks'') (\<lambda>clicks.
     bind_exn (getitem_key row ''impressions'') (\<lambda>impressions.
     bind_exn (getitem_key row ''ctr'') (\<lambda>c.
     bind_exn (py_mul py c (JInt 100)) (\<lambda>c100.
     bind_exn (py_round2 py c100) (\<lambda>ctr.
     bind_exn (getitem_key row ''position'') (\<lambda>p.
     bind_exn (py_round2 py p) (\<lambda>position. Inr ()))))))))))"

definition make_gsc_api_request ::
  "'f python \<Rightarrow> ('f, 'cred, 'svc) env \<Rightarrow> 'svc \<Rightarrow> string \<Rightarrow> 'f json \<Rightarrow> 'f call list \<times> (exn + 'f json)" where
  "make_gsc_api_request py ev service site payload =
     ([GscQuery site payload],
      bind_exn (searchanalytics_query ev service site payload) (\<lambda>response.
      bind_exn (getitem_key response ''rows'') (\<lambda>rs.
      bind_exn (py_iter rs) (\<lambda>rows.
      bind_exn (for_each (clean_row py payload) rows) (\<lambda>_.
      Inr response)))))"

section \<open>The report formatter\<close>

text \<open>\<^verbatim>\<open>data["rows"]\<close>, made ready for a \<^verbatim>\<open>for\<close> loop or a generator.\<close>

definition rows_of :: "'f json \<Rightarrow> exn + 'f json list" where
  "rows_of data = bind_exn (getitem_key data ''rows'') py_iter"

definition total_clicks :: "'f python \<Rightarrow> 'f json \<Rightarrow> exn + 'f json" where
  "total_clicks py data =
     bind_exn (rows_of data) (py_sum py (\<lambda>row. getitem_key row ''clicks''))"

definition total_impressions :: "'f python \<Rightarrow> 'f json \<Rightarrow> exn + 'f json" where
  "total_impressions py data =
     bind_exn (rows_of data) (py_sum py (\<lambda>row. getitem_key row ''impressions''))"

text \<open>\<^verbatim>\<open>sum(row[k] for row in data["rows"]) / len(data["rows"])\<close>.\<close>

definition mean_of :: "'f python \<Rightarrow> string \<Rightarrow> 'f json \<Rightarrow> exn + 'f json" where
  "mean_of py k data =
     bind_exn (rows_of data) (\<lambda>rows.
     bind_exn (py_sum py (\<lambda>row. getitem_key row k) rows) (\<lambda>total.
     bind_exn (getitem_key data ''rows'') (\<lambda>rs.
     bind_exn (py_len rs) (\<lambda>n.
     py_truediv py total (JInt (int n))))))"

definition avg_ctr :: "'f python \<Rightarrow> 'f json \<Rightarrow> exn + 'f json" where
  "avg_ctr py data = bind_exn (mean_of py ''ctr'' data) (\<lambda>m. py_mul py m (JInt 100))"

definition avg_position :: "'f python \<Rightarrow> 'f json \<Rightarrow> exn + 'f json" where
  "avg_position py data = mean_of py ''position'' data"

definition summary_section :: "'f python \<Rightarrow> 'f json \<Rightarrow> exn + string" where
  "summary_section py data =
     bind_exn (total_clicks py data) (\<lambda>clicks.
     bind_exn (total_impressions py data) (\<lambda>impressions.
     bind_exn (avg_ctr py data) (\<lambda>ctr.
     bind_exn (avg_position py data) (\<lambda>position.
     bind_exn (py_format_computed py impressions) (\<lambda>impressions_text.
     bind_exn (py_format_computed py clicks) (\<lambda>clicks_text.
     bind_exn (py_format_2f py ctr) (\<lambda>ctr_text.
     bind_exn (py_format_2f py position) (\<lambda>position_text.
     Inr (''Summary of metrics across selected period:\<newline>''
        @ ''  - Total Impressions: '' @ impressions_text @ ''\<newline>''
        @ ''  - Total Clicks: '' @ clicks_text @ ''\<newline>''
        @ ''  - Average CTR: '' @ ctr_text @ ''%\<newline>''
        @ ''  - Average Rank: '' @ position_text @ ''\<newline>'')))))))))"

definition table_header :: string where
  "table_header = ''Date | Clicks | Impressions | CTR (%) | Average Position''"

definition table_divider :: string where
  "table_divider = replicate (length table_header) CHR ''-''"

definition table_row :: "'f python \<Rightarrow> 'f json \<Rightarrow> exn + string" where
  "table_row py row =
     bind_exn (getitem_key row ''keys'') (\<lambda>ks.
     bind_exn (getitem_idx ks 0) (\<lambda>date.
     bind_exn (getitem_key row ''clicks'') (\<lambda>clicks.
     bind_exn (getitem_key row ''impressions'') (\<lambda>impressions.
     bind_exn (getitem_key row ''ctr'') (\<lambda>c.
     bind_exn (py_mul py c (JInt 100)) (\<lambda>c100.
     bind_exn (py_round2 py c100) (\<lambda>ctr.
     bind_exn (getitem_key row ''position'') (\<lambda>p.
     bind_exn (py_round2 py p) (\<lambda>position.
     bind_exn (py_format_computed py date) (\<lambda>date_text.
     bind_exn (py_format_computed py clicks) (\<lambda>clicks_text.
     bind_exn (py_format_computed py impressions) (\<lambda>impressions_text.
     bind_exn (py_format_computed py ctr) (\<lambda>ctr_text.
     bind_exn (py_format_computed py position) (\<lambda>position_text.
     Inr (date_text @ '' | '' @ clicks_text @ '' | '' @ impressions_text
        @ '' | '' @ ctr_text @ ''% | '' @ position_text)))))))))))))))"

definition table_body :: "'f python \<Rightarrow> 'f json \<Rightarrow> exn + string" where
  "table_body py data =
     bind_exn (rows_of data) (\<lambda>rows.
     bind_exn (map_exn (table_row py) rows) (\<lambda>table_rows.
     Inr (join ''\<newline>'' table_rows)))"

text \<open>The report up to the timestamp, and from the timestamp to the payload echo.\<close>

definition report_head :: string where
  "report_head =
     ''\<newline>### Search Console Data ###\<newline>''
   @ ''\<newline>''
   @ ''This data set helps businesses understand how they are showing up on Google Search. \<newline>''
   @ ''\<newline>''
   @ ''GSC data typically contains information about the following metrics:\<newline>''
   @ ''- Search Impressions\<newline>''
   @ ''- Search Clicks\<newline>''
   @ ''- CTR (Click-Through Rate)\<newline>''
   @ ''- Average Rank (Search Position)\<newline>''
   @ ''\<newline>''
   @ ''and can be segemented across the following dimensions:\<newline>''
   @ ''- Date\<newline>''
   @ ''- Country\<newline>''
   @ ''- Page\<newline>''
   @ ''- Query\<newline>''
   @ ''- Device\<newline>''
   @ ''\<newline>''
   @ ''The following query has been requested by the user on ''"

text \<open>
  Like every function of the module, the formatter runs in the environment: it could
  read the environment variables and the module variables and call the services. It is
  given the environment \<open>ev\<close> and the number \<open>tick\<close> of readings of the clock taken
  before it is called, and returns the requests it sends together with its value or
  exception. What it does with them is to read the clock once, on entry
  (\<^verbatim>\<open>datetime.now()\<close>). The aggregates are computed before the table, the table before
  the final text.
\<close>

definition format_search_console_data ::
  "'f python \<Rightarrow> ('f, 'cred, 'svc) env \<Rightarrow> nat \<Rightarrow> 'f json \<Rightarrow> 'f json \<Rightarrow> 'f json \<Rightarrow> 'f json \<Rightarrow> 'f json
     \<Rightarrow> 'f call list \<times> (exn + string)" where
  "format_search_console_data py ev tick data query start_date end_date api_query_obj =
    (let timestamp = clock ev tick in
     ([],
     bind_exn (summary_section py data) (\<lambda>summary.
     bind_exn (table_body py data) (\<lambda>body.
     bind_exn (py_format_computed py start_date) (\<lambda>start_text.
     bind_exn (py_format_computed py end_date) (\<lambda>end_text.
     bind_exn (py_format_computed py query) (\<lambda>query_text.
     bind_exn (py_format_computed py api_query_obj) (\<lambda>payload_text.
     Inr (report_head @ timestamp
        @ '' for the date range '' @ start_text @ '' to '' @ end_text
        @ '':    \<newline>''
        @ query_text @ ''\<newline>''
        @ ''\<newline>''
        @ ''The data presented below has been pulled to help answer the user'' @ [CHR 0x27]
        @ ''s question using this API payload object:\<newline>''
        @ payload_text @ ''\<newline>''
        @ ''\<newline>''
        @ ''Please review this data in detail and finalize the user'' @ [CHR 0x27]
        @ ''s request with an analysis of the facts presented below:\<newline>''
        @ ''\<newline>''
        @ summary @ ''\<newline>''
        @ ''\<newline>''
        @ table_header @ ''\<newline>''
        @ table_divider @ ''\<newline>''
        @ body @ ''\<newline>''
        @ ''\<newline>'')))))))))"

section \<open>The query synthesizer\<close>

text \<open>\<^verbatim>\<open>s.split(c)\<close> for a separator of one character.\<close>

fun split_on :: "char \<Rightarrow> string \<Rightarrow> string list" where
  "split_on c [] = [[]]"
| "split_on c (x # xs) =
     (case split_on c xs of
        [] \<Rightarrow> [[x]]
      | p # ps \<Rightarrow> if x = c then [] # p # ps else (x # p) # ps)"

text \<open>\<^verbatim>\<open>site_url.split(":")[1]\<close>; the module constant has one colon, so the index exists.\<close>

definition site_domain :: string where
  "site_domain = split_on CHR '':'' site_url ! 1"

text \<open>
  \<^verbatim>\<open>clean_query\<close>. The second replacement is applied to the argument, not to
  \<^verbatim>\<open>clean_response_once\<close>, as the source has it.
\<close>

definition clean_query :: "string \<Rightarrow> string" where
  "clean_query generated_api_query =
     (let search_string = ''```json'';
          search_string_2 = ''```'';
          clean_response_once = replace generated_api_query search_string [];
          clean_response_final = replace generated_api_query search_string_2 []
      in clean_response_final)"

text \<open>
  The instruction text; \<open>now0\<close> and \<open>now1\<close> are the two readings of the clock that the
  f-string takes.
\<close>

definition gsc_system_prompt :: "string \<Rightarrow> string \<Rightarrow> string" where
  \<open>gsc_system_prompt now0 now1 =
     ''You are an expert AI assistant specializing in the Google Search Console API. Your sole function is to act as a precise natural language-to-API translator. You receive user prompts in plain English and your only output is a perfectly structured, valid JSON payload for the searchanalytics.query endpoint.\<newline>''
   @ ''\<newline>''
   @ ''The current time for this request is: '' @ now0 @ ''\<newline>''
   @ ''The current property being analyzed is: https://'' @ site_domain @ ''\<newline>''
   @ ''\<newline>''
   @ ''# P (Problem):\<newline>''
   @ ''\<newline>''
   @ ''Users will provide unstructured, conversational requests for search analytics data. These requests will use relative dates (e.g., "last month"), imprecise terms, and imply complex filtering. Your task is to meticulously parse the user'' @ [CHR 0x27] @ ''s intent, identify all relevant parameters, and convert their request into a machine-readable JSON object that strictly conforms to the API'' @ [CHR 0x27] @ ''s requirements.\<newline>''
   @ ''\<newline>''
   @ ''# G (Guidance):\<newline>''
   @ ''\<newline>''
   @ ''## Parameter Identification:\<newline>''
   @ ''Scan the prompt for the following parameters and map them to the corresponding JSON keys.\<newline>''
   @ ''\<newline>''
   @ ''1.  **Dates**: Convert terms like "yesterday," "last 7 days," "this month," "September 2024" into `YYYY-MM-DD` format for `startDate` and `endDate`.\<newline>''
   @ ''2.  **Dimensions**: These are the fields the user wants to group the data by.\<newline>''
   @ ''    - "queries", "keywords" -> "query"\<newline>''
   @ ''    - "pages", "URLs" -> "page"\<newline>''
   @ ''    - "dates", "daily" -> "date"\<newline>''
   @ ''    - "countries" -> "country"\<newline>''
   @ ''    - "devices" -> "device"\<newline>''
   @ ''    - "search appearance" -> "searchAppearance"\<newline>''
   @ ''3.  **Filters**: This is critical. Filters narrow the results. A dimension can be used as a filter without being in the `dimensions` array.\<newline>''
   @ ''    - **Implicit Filters**: If a user asks for results "in the UK" or "on mobile," these are filters. They should be placed in the `dimensionFilterGroups`. Do NOT add them to the `dimensions` array unless the user explicitly asks to group by them (e.g., "show me clicks by country").\<newline>''
   @ ''    - **Country Filters**: Use the 3-letter ISO 3166-1 alpha-3 code (e.g., "UK" -> "GBR", "United States" -> "USA").\<newline>''
   @ ''    - **Device Filters**: Use API constants: "DESKTOP", "MOBILE", "TABLET".\<newline>''
   @ ''    - **Page Filter Nuance**: When filtering by `page`, be strategic. If the user provides a full URL with "https://", use the `equals` operator. If the user provides only a URL path AND uses the Equal operator (e.g., page equals "/dashboards" or page equals "blog/my-post"), you MUST add the full domain name to the URL (e.g., "https://'' @ site_domain @ ''/dashboards" or "https://'' @ site_domain @ ''/blog/my-post").\<newline>''
   @ ''    - **Operators**:\<newline>''
   @ ''        - "for the page", "on the URL" -> `dimension: '' @ [CHR 0x27] @ ''page'' @ [CHR 0x27] @ '', operator: '' @ [CHR 0x27] @ ''equals'' @ [CHR 0x27] @ ''`\<newline>''
   @ ''        - "containing", "with the word" -> `dimension: '' @ [CHR 0x27] @ ''query'' @ [CHR 0x27] @ '', operator: '' @ [CHR 0x27] @ ''contains'' @ [CHR 0x27] @ ''`\<newline>''
   @ ''        - "excluding", "but not" -> `dimension: '' @ [CHR 0x27] @ ''query'' @ [CHR 0x27] @ '', operator: '' @ [CHR 0x27] @ ''notContains'' @ [CHR 0x27] @ ''`\<newline>''
   @ ''        - "matches regex", "matches pattern" -> `operator: '' @ [CHR 0x27] @ ''includingRegex'' @ [CHR 0x27] @ ''`\<newline>''
   @ ''        - "doesn'' @ [CHR 0x27] @ ''t match regex", "excluding pattern" -> `operator: '' @ [CHR 0x27] @ ''excludingRegex'' @ [CHR 0x27] @ ''`\<newline>''
   @ ''        - If no operator is specified for a filter, default to `'' @ [CHR 0x27] @ ''equals'' @ [CHR 0x27] @ ''`.\<newline>''
   @ ''4.  **Search Type**: Look for mentions of specific search surfaces.\<newline>''
   @ ''    - "Google Discover" -> `"type": "discover"`\<newline>''
   @ ''    - "Google News" -> `"type": "googleNews"`\<newline>''
   @ ''    - "Image Search" -> `"type": "image"`\<newline>''
   @ ''    - If unspecified, default to `"web"`.\<newline>''
   @ ''5.  **Limits & Pagination**:\<newline>''
   @ ''    - "top 10", "25 results" -> `rowLimit`\<newline>''
   @ ''    - "starting at row 50" -> `startRow`\<newline>''
   @ ''6.  **Logical Inference for Date Trends (Critical Rule)**:\<newline>''
   @ ''    - If the user asks to trend data by `date` (e.g., "show me daily data", "trended over X days"), you MUST ensure the `rowLimit` is at least equal to the number of days in the requested date range.\<newline>''
   @ ''    - For example, a request for "the last 90 days" trended daily covers 91 data points (inclusive of the start and end dates). Therefore, the `rowLimit` MUST be set to 91 or higher. Do not use the default `rowLimit` in this scenario.\<newline>''
   @ ''\<newline>''
   @ ''## Default Values:\<newline>''
   @ ''-   `startDate`, `endDate`: If no date range is specified, default to the last 28 days.\<newline>''
   @ ''-   `dimensions`: If no dimensions are specified, default to `["query"]`.\<newline>''
   @ ''-   `rowLimit`: If no limit is specified, default to 25. \<newline>''
   @ ''-   `startRow`: If no pagination is mentioned, default to 0.\<newline>''
   @ ''-   `aggregationType`: Default to `"auto"` unless the user specifies aggregation by "page" or "property".\<newline>''
   @ ''\<newline>''
   @ ''## Output Format:\<newline>''
   @ ''Your output must be **only** the JSON object. Do not include any conversational text, explanations, or markdown formatting such as ```json or ```.\<newline>''
   @ ''\<newline>''
   @ ''# Examples for Guidance:\<newline>''
   @ ''\<newline>''
   @ ''## Example 1: Simple Prompt\<newline>''
   @ ''User Prompt:\<newline>''
   @ ''Show me my top 25 queries from last month\<newline>''
   @ ''\<newline>''
   @ ''AI Assistant Output:\<newline>''
   @ ''{\<newline>''
   @ ''    "startDate": "2025-09-01",\<newline>''
   @ ''    "endDate": "2025-09-30",\<newline>''
   @ ''    "dimensions": ["query"],\<newline>''
   @ ''    "rowLimit": 25,\<newline>''
   @ ''    "startRow": 0\<newline>''
   @ ''}\<newline>''
   @ ''\<newline>''
   @ ''## Example 2: Simple Trended Date Prompt \<newline>''
   @ ''User Prompt:\<newline>''
   @ ''show me the avg position of my site trended over the last 90 days by date\<newline>''
   @ ''\<newline>''
   @ ''AI Assistant Output:\<newline>''
   @ ''{\<newline>''
   @ ''    "startDate": "2025-08-05",\<newline>''
   @ ''    "endDate": "2025-11-03",\<newline>''
   @ ''    "dimensions": ["date"],\<newline>''
   @ ''    "rowLimit": 91,\<newline>''
   @ ''    "startRow": 0\<newline>''
   @ ''}\<newline>''
   @ ''\<newline>''
   @ ''## Example 3: Prompt with Filtering (Corrected Logic)\<newline>''
   @ ''User Prompt:\<newline>''
   @ ''What were my top pages in the UK on mobile for the last 7 days?\<newline>''
   @ ''\<newline>''
   @ ''AI Assistant Output:\<newline>''
   @ ''{\<newline>''
   @ ''    "startDate": "2025-10-24",\<newline>''
   @ ''    "endDate": "2025-10-31",\<newline>''
   @ ''    "dimensions": ["page"],\<newline>''
   @ ''    "dimensionFilterGroups": [\<newline>''
   @ ''        {\<newline>''
   @ ''            "filters": [\<newline>''
   @ ''                {\<newline>''
   @ ''                    "dimension": "country",\<newline>''
   @ ''                    "expression": "GBR"\<newline>''
   @ ''                },\<newline>''
   @ ''                {\<newline>''
   @ ''                    "dimension": "device",\<newline>''
   @ ''                    "expression": "MOBILE"\<newline>''
   @ ''                }\<newline>''
   @ ''            ]\<newline>''
   @ ''        }\<newline>''
   @ ''    ],\<newline>''
   @ ''    "rowLimit": 25\<newline>''
   @ ''}\<newline>''
   @ ''\<newline>''
   @ ''## Example 4: Complex Prompt with Multiple Filters\<newline>''
   @ ''User Prompt:\<newline>''
   @ ''I need to see all queries containing '' @ [CHR 0x27] @ ''ai assistant'' @ [CHR 0x27] @ '' but not '' @ [CHR 0x27] @ ''free'' @ [CHR 0x27] @ '', specifically for the page '' @ [CHR 0x27] @ ''https://'' @ site_domain @ ''/blog/ai-tools'' @ [CHR 0x27] @ ''.\<newline>''
   @ ''\<newline>''
   @ ''AI Assistant Output:\<newline>''
   @ ''{\<newline>''
   @ ''    "startDate": "2025-10-03",\<newline>''
   @ ''    "endDate": "2025-10-31",\<newline>''
   @ ''    "dimensions": ["query"],\<newline>''
   @ ''    "rowLimit": 100,\<newline>''
   @ ''    "startRow": 0,\<newline>''
   @ ''    "dimensionFilterGroups": [\<newline>''
   @ ''        {\<newline>''
   @ ''            "groupType": "and",\<newline>''
   @ ''            "filters": [\<newline>''
   @ ''                {\<newline>''
   @ ''                    "dimension": "query",\<newline>''
   @ ''                    "operator": "contains",\<newline>''
   @ ''                    "expression": "ai assistant"\<newline>''
   @ ''                },\<newline>''
   @ ''                {\<newline>''
   @ ''                    "dimension": "query",\<newline>''
   @ ''                    "operator": "notContains",\<newline>''
   @ ''                    "expression": "free"\<newline>''
   @ ''                },\<newline>''
   @ ''                {\<newline>''
   @ ''                    "dimension": "page",\<newline>''
   @ ''                    "operator": "equals",\<newline>''
   @ ''                    "expression": "https://'' @ site_domain @ ''/blog/ai-tools"\<newline>''
   @ ''                }\<newline>''
   @ ''            ]\<newline>''
   @ ''        }\<newline>''
   @ ''    ]\<newline>''
   @ ''}\<newline>''
   @ ''\<newline>''
   @ ''## Example 5: Prompt with Regex Filtering\<newline>''
   @ ''User Prompt:\<newline>''
   @ ''Show me pages that match the regex '' @ [CHR 0x27] @ ''/products/.*'' @ [CHR 0x27] @ '' but exclude queries matching the regex '' @ [CHR 0x27] @ ''sale|discount'' @ [CHR 0x27] @ ''.\<newline>''
   @ ''\<newline>''
   @ ''AI Assistant Output:\<newline>''
   @ ''{\<newline>''
   @ ''    "startDate": "2025-10-03",\<newline>''
   @ ''    "endDate": "2025-10-31",\<newline>''
   @ ''    "rowLimit": 25,\<newline>''
   @ ''    "dimensions": ["page"],\<newline>''
   @ ''    "dimensionFilterGroups": [\<newline>''
   @ ''        {\<newline>''
   @ ''            "groupType": "and",\<newline>''
   @ ''            "filters": [\<newline>''
   @ ''                {\<newline>''
   @ ''                    "dimension": "page",\<newline>''
   @ ''                    "operator": "includingRegex",\<newline>''
   @ ''                    "expression": "/products/.*"\<newline>''
   @ ''                },\<newline>''
   @ ''                {\<newline>''
   @ ''                    "dimension": "query",\<newline>''
   @ ''                    "operator": "excludingRegex",\<newline>''
   @ ''                    "expression": "sale|discount"\<newline>''
   @ ''                }\<newline>''
   @ ''            ]\<newline>''
   @ ''        }\<newline>''
   @ ''    ]\<newline>''
   @ ''}\<newline>''
   @ ''\<newline>''
   @ ''Final note:\<newline>''
   @ ''The current time for this request is: '' @ now1 @ ''\<newline>''
   @ ''The current property being analyzed is: https://'' @ site_domain @ ''\<newline>''\<close>

definition gemini_url :: "string \<Rightarrow> string" where
  "gemini_url gemini_key =
     ''https://generativelanguage.googleapis.com/v1beta/models/gemini-2.5-flash:generateContent?key=''
     @ gemini_key"

definition gemini_payload :: "'f python \<Rightarrow> string \<Rightarrow> string \<Rightarrow> 'f json" where
  "gemini_payload py system_prompt user_message =
     JObj [
       (''system_instruction'', JObj [(''parts'', JArr [JObj [(''text'', JStr system_prompt)]])]),
       (''contents'', JArr [JObj [(''role'', JStr ''user''),
                                  (''parts'', JArr [JObj [(''text'', JStr user_message)]])]]),
       (''generationConfig'', JObj [
          (''temperature'', JFloat (float_lit py ''0.1'')),
          (''topK'', JInt 40),
          (''topP'', JFloat (float_lit py ''0.95'')),
          (''maxOutputTokens'', JInt 2048)])]"

text \<open>\<^verbatim>\<open>'candidates' in result and len(result['candidates']) > 0\<close>.\<close>

definition has_candidates :: "'f json \<Rightarrow> exn + bool" where
  "has_candidates result =
     bind_exn (py_contains ''candidates'' result) (\<lambda>present.
       if \<not> present then Inr False
       else bind_exn (getitem_key result ''candidates'') (\<lambda>cs.
            bind_exn (py_len cs) (\<lambda>n. Inr (0 < n))))"

text \<open>\<^verbatim>\<open>result['candidates'][0]['content']['parts'][0]['text']\<close>.\<close>

definition generated_text :: "'f json \<Rightarrow> exn + 'f json" where
  "generated_text result =
     bind_exn (getitem_key result ''candidates'') (\<lambda>cs.
     bind_exn (getitem_idx cs 0) (\<lambda>c.
     bind_exn (getitem_key c ''content'') (\<lambda>content.
     bind_exn (getitem_key content ''parts'') (\<lambda>parts.
     bind_exn (getitem_idx parts 0) (\<lambda>part.
     getitem_key part ''text'')))))"

text \<open>Only a str has the method \<^verbatim>\<open>replace\<close> that \<^verbatim>\<open>clean_query\<close> calls.\<close>

fun call_clean_query :: "'f json \<Rightarrow> exn + string" where
  "call_clean_query (JStr s) = Inr (clean_query s)"
| "call_clean_query v =
     Inl (Raise AttributeError (quote (type_name v) @ '' object has no attribute '' @ quote ''replace''))"

text \<open>The two \<^verbatim>\<open>except\<close> clauses of \<^verbatim>\<open>get_search_console_data\<close>.\<close>

fun reraise :: "exn \<Rightarrow> exn" where
  "reraise (Raise RequestException msg) = Raise PlainException (''Gemini API request failed: '' @ msg)"
| "reraise (Raise c msg) = Raise PlainException (''Error processing Gemini API response: '' @ msg)"

text \<open>
  The body of the \<^verbatim>\<open>try\<close> block: the requests sent, and the value returned or the
  exception raised inside the block. The prompt has taken two readings of the clock
  when the formatter is called.
\<close>

definition try_block ::
  "'f python \<Rightarrow> ('f, 'cred, 'svc) env \<Rightarrow> 'f json \<Rightarrow> string \<Rightarrow> 'f json \<Rightarrow> 'f call list \<times> (exn + 'f json)" where
  "try_block py ev query url payload =
     (case requests_post ev url payload of
        Inl e \<Rightarrow> ([GeminiPost url payload], Inl e)
      | Inr result \<Rightarrow>
          (case has_candidates result of
             Inl e \<Rightarrow> ([GeminiPost url payload], Inl e)
           | Inr False \<Rightarrow>
               ([GeminiPost url payload],
                Inr (JObj [(''api_query'', JStr ''No results generated from Gemini API''),
                           (''query'', query),
                           (''status'', JStr ''no_results'')]))
           | Inr True \<Rightarrow>
               (case bind_exn (generated_text result) (\<lambda>generated_api_query.
                     bind_exn (call_clean_query generated_api_query) (\<lambda>clean_api_query.
                     bind_exn (json_loads py clean_api_query) (\<lambda>api_query_obj.
                     bind_exn (getitem_key api_query_obj ''startDate'') (\<lambda>start_date.
                     bind_exn (getitem_key api_query_obj ''endDate'') (\<lambda>end_date.
                     bind_exn (create_gsc_service_obj py ev (gsc_base64_key ev)) (\<lambda>service.
                     Inr (generated_api_query, api_query_obj, start_date, end_date, service))))))) of
                  Inl e \<Rightarrow> ([GeminiPost url payload], Inl e)
                | Inr (generated_api_query, api_query_obj, start_date, end_date, service) \<Rightarrow>
                    (case make_gsc_api_request py ev service site_url api_query_obj of
                       (sent, Inl e) \<Rightarrow> (GeminiPost url payload # sent, Inl e)
                     | (sent, Inr api_response) \<Rightarrow>
                         (case format_search_console_data py ev 2 api_response query
                                 start_date end_date api_query_obj of
                            (sent', r) \<Rightarrow>
                              (GeminiPost url payload # sent @ sent',
                               bind_exn r (\<lambda>llm_response.
                               Inr (JObj [(''api_response'', JStr llm_response),
                                          (''api_query'', generated_api_query),
                                          (''user_query'', query),
                                          (''status'', JStr ''success'')]))))))))"

definition get_search_console_data ::
  "'f python \<Rightarrow> ('f, 'cred, 'svc) env \<Rightarrow> 'f json \<Rightarrow> 'f call list \<times> (exn + 'f json)" where
  "get_search_console_data py ev arguments =
     (case get_method arguments ''query'' JNull of
        Inl e \<Rightarrow> ([], Inl e)
      | Inr query \<Rightarrow>
          if \<not> py_truthy py query then ([], Inl (Raise ValueError ''query is required''))
          else
            (case gemini_api_key ev of
               None \<Rightarrow> ([], Inl (Raise ValueError ''GEMINI_API_KEY environment variable is not set''))
             | Some gemini_key \<Rightarrow>
                 if gemini_key = [] then
                   ([], Inl (Raise ValueError ''GEMINI_API_KEY environment variable is not set''))
                 else
                   (let system_prompt = gsc_system_prompt (clock ev 0) (clock ev 1);
                        user_message = py_format py query;
                        payload = gemini_payload py system_prompt user_message;
                        url = gemini_url gemini_key
                    in case try_block py ev query url payload of
                         (sent, Inl e) \<Rightarrow> (sent, Inl (reraise e))
                       | (sent, Inr v) \<Rightarrow> (sent, Inr v))))"

section \<open>The protocol handlers\<close>

definition handle_initialize :: "'f json" where
  "handle_initialize =
     JObj [(''protocolVersion'', JStr ''2024-11-05''),
           (''serverInfo'', JObj [(''name'', JStr ''search_console_mcp''), (''version'', JStr ''0.1.0'')]),
           (''capabilities'', JObj [(''tools'', JObj [])])]"

definition handle_tools_list :: "'f json" where
  "handle_tools_list =
     JObj [(''tools'', JArr [
       JObj [(''name'', JStr ''search_console_query''),
             (''description'', JStr ''a tool that helps translate natural language user requests into Google Search Console API requests''),
             (''annotations'', JObj [(''read_only'', JBool False)]),
             (''inputSchema'', JObj [
                (''type'', JStr ''object''),
                (''properties'', JObj [
                   (''query'', JObj [
                      (''type'', JStr ''string''),
                      (''description'', JStr ''The full natural language query from the user requesting data from Google Search Console.'')])]),
                (''required'', JArr [JStr ''query'']),
                (''additionalProperties'', JBool False)])]])]"

definition error_result :: "string \<Rightarrow> 'f json" where
  "error_result msg =
     JObj [(''isError'', JBool True),
           (''content'', JArr [JObj [(''type'', JStr ''text''), (''text'', JStr msg)]])]"

definition text_result :: "string \<Rightarrow> 'f json" where
  "text_result text_value = JObj [(''content'', JArr [JObj [(''type'', JStr ''text''), (''text'', JStr text_value)]])]"

text \<open>
  The text of a result: \<^verbatim>\<open>result.get("api_response", "")\<close>, passed through
  \<^verbatim>\<open>json.dumps\<close> (or, should that raise, \<^verbatim>\<open>str\<close>) when it is not a str.
\<close>

definition text_of_result :: "'f python \<Rightarrow> 'f json \<Rightarrow> exn + string" where
  "text_of_result py result =
     bind_exn (get_method result ''api_response'' (JStr [])) (\<lambda>text_value.
       case text_value of
         JStr s \<Rightarrow> Inr s
       | v \<Rightarrow> (case json_dumps py v of Inr s \<Rightarrow> Inr s | Inl e \<Rightarrow> Inr (py_format py v)))"

text \<open>
  The block that decodes string arguments: \<open>None\<close> when \<^verbatim>\<open>json.loads\<close> raises, which
  makes \<^verbatim>\<open>handle_tool_call\<close> return at once.
\<close>

definition decode_arguments :: "'f python \<Rightarrow> 'f json \<Rightarrow> 'f json option" where
  "decode_arguments py arguments =
     (case arguments of
        JStr s \<Rightarrow> (case json_loads py s of Inl e \<Rightarrow> None | Inr decoded \<Rightarrow> Some decoded)
      | v \<Rightarrow> Some v)"

definition handle_tool_call ::
  "'f python \<Rightarrow> ('f, 'cred, 'svc) env \<Rightarrow> 'f json \<Rightarrow> 'f call list \<times> (exn + 'f json)" where
  "handle_tool_call py ev params =
     (case bind_exn (get_method params ''name'' JNull) (\<lambda>tool_name.
           bind_exn (get_method params ''arguments'' (JObj [])) (\<lambda>arguments.
           Inr (tool_name, arguments))) of
        Inl e \<Rightarrow> ([], Inl e)
      | Inr (tool_name, arguments) \<Rightarrow>
          (case decode_arguments py arguments of
             None \<Rightarrow> ([], Inr (error_result ''Invalid arguments: expected object or JSON string.''))
           | Some arguments' \<Rightarrow>
               if tool_name \<noteq> JStr ''search_console_query'' then
                 ([], Inr (error_result (''Tool not found: '' @ py_format py tool_name)))
               else
                 (case get_search_console_data py ev arguments' of
                    (sent, Inl e) \<Rightarrow>
                      (sent, Inr (error_result (''Tool error (search_console_query): '' @ exn_str e)))
                  | (sent, Inr result) \<Rightarrow>
                      (sent, bind_exn (text_of_result py result) (\<lambda>text_value.
                             Inr (text_result text_value))))))"

definition handle_request ::
  "'f python \<Rightarrow> ('f, 'cred, 'svc) env \<Rightarrow> string \<Rightarrow> 'f json \<Rightarrow> 'f call list \<times> (exn + 'f json)" where
  "handle_request py ev method params =
     (if method = ''initialize'' then ([], Inr handle_initialize)
      else if method = ''tools/list'' then ([], Inr handle_tools_list)
      else if method = ''tools/call'' then handle_tool_call py ev params
      else ([], Inl (Raise ValueError (''Method not found: '' @ method))))"


section \<open>The specification's notions\<close>

text \<open>
  The inclusive day count of a date span, for the trend rule. The source has no such
  computation; the definitions follow the specification's words: calendar dates in the
  form \<^verbatim>\<open>YYYY-MM-DD\<close>, both ends counted.
\<close>

definition digit_value :: "char \<Rightarrow> nat option" where
  "digit_value c =
     (let n = (of_char c :: nat) in if 48 \<le> n \<and> n \<le> 57 then Some (n - 48) else None)"

fun parse_digits :: "nat \<Rightarrow> string \<Rightarrow> nat option" where
  "parse_digits acc [] = Some acc"
| "parse_digits acc (c # cs) =
     (case digit_value c of None \<Rightarrow> None | Some d \<Rightarrow> parse_digits (10 * acc + d) cs)"

definition parse_nat :: "string \<Rightarrow> nat option" where
  "parse_nat s = (if s = [] then None else parse_digits 0 s)"

text \<open>Days since 1970-01-01 in the proleptic Gregorian calendar.\<close>

definition day_number :: "int \<Rightarrow> int \<Rightarrow> int \<Rightarrow> int" where
  "day_number y m d =
     (let y' = (if m \<le> 2 then y - 1 else y);
          era = y' div 400;
          year_of_era = y' - era * 400;
          shifted_month = (m + 9) mod 12;
          day_of_year = (153 * shifted_month + 2) div 5 + d - 1;
          day_of_era = year_of_era * 365 + year_of_era div 4 - year_of_era div 100 + day_of_year
      in era * 146097 + day_of_era - 719468)"

definition iso_day :: "string \<Rightarrow> int option" where
  "iso_day s =
     (case map parse_nat (split_on CHR ''-'' s) of
        [Some y, Some m, Some d] \<Rightarrow> Some (day_number (int y) (int m) (int d))
      | _ \<Rightarrow> None)"

definition inclusive_days :: "string \<Rightarrow> string \<Rightarrow> int option" where
  "inclusive_days start_date end_date =
     (case (iso_day start_date, iso_day end_date) of
        (Some a, Some b) \<Rightarrow> Some (b - a + 1)
      | _ \<Rightarrow> None)"

definition date_is_dimension :: "'f json \<Rightarrow> bool" where
  "date_is_dimension q =
     (case getitem_key q ''dimensions'' of Inr (JArr dims) \<Rightarrow> JStr ''date'' \<in> set dims | _ \<Rightarrow> False)"

definition span_of_query :: "'f json \<Rightarrow> int option" where
  "span_of_query q =
     (case (getitem_key q ''startDate'', getitem_key q ''endDate'') of
        (Inr (JStr a), Inr (JStr b)) \<Rightarrow> inclusive_days a b
      | _ \<Rightarrow> None)"

text \<open>The trend rule fails for a query: date is a dimension and rowLimit is below the span.\<close>

definition trend_rule_violated :: "'f json \<Rightarrow> bool" where
  "trend_rule_violated q =
     (date_is_dimension q
      \<and> (case (getitem_key q ''rowLimit'', span_of_query q) of
            (Inr (JInt limit), Some days) \<Rightarrow> limit < days
          | _ \<Rightarrow> False))"

text \<open>
  The specification's ReportRow, with the first of its keys: text keys, integer clicks
  and impressions, floating-point ctr and position; and the reading of a row of the
  response as one.
\<close>

record 'f report_row =
  rr_key :: string
  rr_clicks :: int
  rr_impressions :: int
  rr_ctr :: 'f
  rr_position :: 'f

fun as_int :: "exn + 'f json \<Rightarrow> int option" where
  "as_int (Inr (JInt i)) = Some i"
| "as_int v = None"

fun as_float :: "exn + 'f json \<Rightarrow> 'f option" where
  "as_float (Inr (JFloat x)) = Some x"
| "as_float v = None"

fun first_text_key :: "exn + 'f json \<Rightarrow> string option" where
  "first_text_key (Inr (JArr (JStr k # ks))) = Some k"
| "first_text_key v = None"

definition report_row_of :: "'f json \<Rightarrow> 'f report_row option" where
  "report_row_of row =
     Option.bind (first_text_key (getitem_key row ''keys'')) (\<lambda>k.
     Option.bind (as_int (getitem_key row ''clicks'')) (\<lambda>c.
     Option.bind (as_int (getitem_key row ''impressions'')) (\<lambda>i.
     Option.bind (as_float (getitem_key row ''ctr'')) (\<lambda>x.
     Option.bind (as_float (getitem_key row ''position'')) (\<lambda>p.
     Some \<lparr> rr_key = k, rr_clicks = c, rr_impressions = i, rr_ctr = x, rr_position = p \<rparr>)))))"

text \<open>
  The arithmetic mean in floating point, as Python computes it: \<^verbatim>\<open>sum\<close> adds the
  first value to the int \<open>0\<close> and gives the others to its float loop; the sum is
  divided by the converted count.
\<close>

definition float_mean :: "'f python \<Rightarrow> 'f list \<Rightarrow> 'f option" where
  "float_mean py xs =
     (case xs of
        [] \<Rightarrow> None
      | x # rest \<Rightarrow>
          (case (float_of_int py 0, float_of_int py (int (length xs))) of
             (Some zero, Some n) \<Rightarrow>
               if float_is_zero py n then None
               else Some (float_div py (float_sum py (float_add py zero x) (map NFloat rest)) n)
           | _ \<Rightarrow> None))"

text \<open>A line of the table for a ReportRow; \<open>hundred\<close> is \<^verbatim>\<open>float(100)\<close>.\<close>

definition table_line :: "'f python \<Rightarrow> 'f \<Rightarrow> 'f report_row \<Rightarrow> string" where
  "table_line py hundred r =
     rr_key r @ '' | '' @ show_int (rr_clicks r) @ '' | '' @ show_int (rr_impressions r)
     @ '' | '' @ float_str py (float_round2 py (float_mul py (rr_ctr r) hundred))
     @ ''% | '' @ float_str py (float_round2 py (rr_position r))"

section \<open>Example runs\<close>

text \<open>
  An interpreter for running examples: floats are exact rationals, rounded to two
  decimals with ties to even, \<^verbatim>\<open>json.loads\<close> knows the three texts used below.
\<close>

definition round_half_even :: "rat \<Rightarrow> int" where
  "round_half_even y =
     (let f = \<lfloor>y\<rfloor>; d = y - of_int f
      in if d < 1 / 2 then f else if 1 / 2 < d then f + 1 else if even f then f else f + 1)"

definition show_2dp :: "rat \<Rightarrow> string" where
  "show_2dp x =
     (let n = round_half_even (x * 100); a = nat \<bar>n\<bar>
      in (if n < 0 then ''-'' else []) @ show_nat (a div 100) @ ''.''
         @ [digit_char (a mod 100 div 10), digit_char (a mod 10)])"

text \<open>\<^verbatim>\<open>str\<close> of a float that has at most two decimals: \<^verbatim>\<open>30.0\<close>, \<^verbatim>\<open>2.5\<close>, \<^verbatim>\<open>16.25\<close>.\<close>

definition show_short :: "rat \<Rightarrow> string" where
  "show_short x = (let s = show_2dp x in if last s = CHR ''0'' then butlast s else s)"

definition monthly_text :: string where
  \<open>monthly_text = ''{"startDate": "2025-09-01", "endDate": "2025-09-30", "dimensions": ["query"], "rowLimit": 25, "startRow": 0}''\<close>

definition monthly_query :: "rat json" where
  "monthly_query =
     JObj [(''startDate'', JStr ''2025-09-01''), (''endDate'', JStr ''2025-09-30''),
           (''dimensions'', JArr [JStr ''query'']), (''rowLimit'', JInt 25), (''startRow'', JInt 0)]"

definition trend_text :: string where
  \<open>trend_text = ''{"startDate": "2025-08-05", "endDate": "2025-11-03", "dimensions": ["date"], "rowLimit": 25, "startRow": 0}''\<close>

definition trend_query :: "rat json" where
  "trend_query =
     JObj [(''startDate'', JStr ''2025-08-05''), (''endDate'', JStr ''2025-11-03''),
           (''dimensions'', JArr [JStr ''date'']), (''rowLimit'', JInt 25), (''startRow'', JInt 0)]"

definition example_loads :: "string \<Rightarrow> exn + rat json" where
  "example_loads s =
     (if s = monthly_text then Inr monthly_query
      else if s = trend_text then Inr trend_query
      else if s = ''{}'' then Inr (JObj [])
      else Inl (Raise ValueError ''Expecting value: line 1 column 1 (char 0)''))"

definition example_python :: "rat python" where
  "example_python =
     \<lparr> float_lit = (\<lambda>s. if s = ''0.1'' then 1 / 10 else if s = ''0.95'' then 19 / 20 else 0),
       float_of_int = (\<lambda>i. Some (of_int i)),
       float_add = (\<lambda>x y. x + y),
       float_mul = (\<lambda>x y. x * y),
       float_div = (\<lambda>x y. x / y),
       int_truediv = (\<lambda>i j. Some (of_int i / of_int j)),
       float_is_zero = (\<lambda>x. x = 0),
       float_round2 = (\<lambda>x. of_int (round_half_even (x * 100)) / 100),
       float_fmt2f = show_2dp,
       float_str = show_short,
       float_sum = (\<lambda>a run. foldl (\<lambda>s n. s + (case n of NInt i \<Rightarrow> of_int i | NFloat x \<Rightarrow> x)) a run),
       fits_long = (\<lambda>i. - (2 ^ 63) \<le> i \<and> i < 2 ^ 63),
       int_max_str_digits = 4300,
       container_str = (\<lambda>v. ''{...}''),
       json_loads = example_loads,
       json_dumps = (\<lambda>v. Inl (Raise TypeError ''Object is not JSON serializable'')),
       b64decode_utf8 = (\<lambda>s. Inr ''{}'') \<rparr>"

text \<open>
  An environment in which the language model answers \<open>llm_result\<close> and the reporting
  service answers \<open>api_response\<close>.
\<close>

definition example_env :: "rat json \<Rightarrow> rat json \<Rightarrow> (rat, unit, unit) env" where
  "example_env llm_result api_response =
     \<lparr> gsc_base64_key = Some ''e30='',
       gemini_api_key = Some ''test-key'',
       clock = (\<lambda>n. ''2025-11-03 09:00:00''),
       requests_post = (\<lambda>url payload. Inr llm_result),
       from_service_account_info = (\<lambda>key_info scopes. Inr ()),
       build = (\<lambda>name version credentials. Inr ()),
       searchanalytics_query = (\<lambda>service site body. Inr api_response) \<rparr>"

definition llm_reply :: "string \<Rightarrow> rat json" where
  "llm_reply generated =
     JObj [(''candidates'', JArr [JObj [(''content'', JObj [(''parts'', JArr [JObj [(''text'', JStr generated)]])])]])]"

definition example_row :: "string \<Rightarrow> int \<Rightarrow> int \<Rightarrow> rat \<Rightarrow> rat \<Rightarrow> rat json" where
  "example_row k c i r p =
     JObj [(''keys'', JArr [JStr k]), (''clicks'', JInt c), (''impressions'', JInt i),
           (''ctr'', JFloat r), (''position'', JFloat p)]"

definition two_rows :: "rat json list" where
  "two_rows = [example_row ''isabelle'' 3 10 (3 / 10) (5 / 2), example_row ''hol'' 1 40 (1 / 40) 7]"

definition fenced_text :: string where
  \<open>fenced_text = ''```json\<newline>'' @ monthly_text @ ''\<newline>```''\<close>


definition call_params :: "rat json" where
  "call_params =
     JObj [(''name'', JStr ''search_console_query''),
           (''arguments'', JObj [(''query'', JStr ''top queries last month'')])]"

section \<open>Properties\<close>

declare replace.simps [simp del]
declare show_nat.simps [simp del]

subsection \<open>The example interpreter and environment, field by field\<close>

lemma example_env_simps:
  "gsc_base64_key (example_env l a) = Some ''e30=''"
  "gemini_api_key (example_env l a) = Some ''test-key''"
  "clock (example_env l a) n = ''2025-11-03 09:00:00''"
  "requests_post (example_env l a) url payload = Inr l"
  "from_service_account_info (example_env l a) info scopes = Inr ()"
  "build (example_env l a) nm ver cred = Inr ()"
  "searchanalytics_query (example_env l a) svc site body = Inr a"
  by (simp_all add: example_env_def)

lemma example_python_simps:
  "float_of_int example_python i = Some (of_int i)"
  "float_add example_python x y = x + y"
  "float_mul example_python x y = x * y"
  "float_div example_python x y = x / y"
  "int_truediv example_python i j = Some (of_int i / of_int j)"
  "float_is_zero example_python x = (x = 0)"
  "float_round2 example_python x = of_int (round_half_even (x * 100)) / 100"
  "float_sum example_python a run
     = foldl (\<lambda>s n. s + (case n of NInt i \<Rightarrow> of_int i | NFloat x \<Rightarrow> x)) a run"
  "fits_long example_python i = (- (2 ^ 63) \<le> i \<and> i < 2 ^ 63)"
  "int_max_str_digits example_python = 4300"
  "float_fmt2f example_python = show_2dp"
  "float_str example_python = show_short"
  "container_str example_python v = ''{...}''"
  "json_loads example_python = example_loads"
  "json_dumps example_python v = Inl (Raise TypeError ''Object is not JSON serializable'')"
  "b64decode_utf8 example_python s = Inr ''{}''"
  by (simp_all add: example_python_def)

lemma example_loads_simps:
  "example_loads monthly_text = Inr monthly_query"
  "example_loads trend_text = Inr trend_query"
  "example_loads ''{}'' = Inr (JObj [])"
  by (simp_all add: example_loads_def monthly_text_def trend_text_def)

lemma clean_monthly: "clean_query monthly_text = monthly_text"
  unfolding monthly_text_def clean_query_def Let_def by code_simp

lemma clean_trend: "clean_query trend_text = trend_text"
  unfolding trend_text_def clean_query_def Let_def by code_simp

lemma example_service: "create_gsc_service_obj example_python (example_env l a) k = Inr ()"
  by (simp add: create_gsc_service_obj_def credentials_from_base64_env_def example_env_simps
      example_python_simps example_loads_simps)

subsection \<open>Zero rows\<close>

text \<open>
  With no rows the sums are the int \<open>0\<close> and the count is \<open>0\<close>: the first average
  divides by zero. Nothing in the formatter tests the count.
\<close>

lemma format_empty_rows_raises:
  assumes "getitem_key data ''rows'' = Inr (JArr [])"
  shows "format_search_console_data py ev tick data query start_date end_date api_query_obj
         = ([], Inl (Raise ZeroDivisionError ''division by zero''))"
  using assms
  by (simp add: format_search_console_data_def summary_section_def total_clicks_def
      total_impressions_def avg_ctr_def mean_of_def rows_of_def py_sum_def py_truediv_def)

lemma try_block_empty_rows:
  "try_block example_python (example_env (llm_reply monthly_text) (JObj [(''rows'', JArr [])])) q url payload
   = ([GeminiPost url payload, GscQuery site_url monthly_query],
      Inl (Raise ZeroDivisionError ''division by zero''))"
  by (simp add: try_block_def has_candidates_def generated_text_def example_env_simps
      example_service llm_reply_def clean_monthly make_gsc_api_request_def example_python_simps
      example_loads_simps format_empty_rows_raises monthly_query_def rows_of_def)

lemma try_block_no_rows_key:
  "try_block example_python (example_env (llm_reply monthly_text) (JObj [])) q url payload
   = ([GeminiPost url payload, GscQuery site_url monthly_query],
      Inl (Raise KeyError (quote ''rows'')))"
  by (simp add: try_block_def has_candidates_def generated_text_def example_env_simps
      example_service llm_reply_def clean_monthly make_gsc_api_request_def example_python_simps
      example_loads_simps monthly_query_def)

text \<open>
  C1. A reporting-API response with zero rows should give a result of status
  \<^verbatim>\<open>"no_results"\<close> without any formatting. The code has no such branch: with
  \<^verbatim>\<open>{"rows": []}\<close> the formatter is called and divides by zero; with a response that
  has no \<^verbatim>\<open>rows\<close> key at all, \<^verbatim>\<open>make_gsc_api_request\<close> raises KeyError. Either
  exception is re-raised by \<^verbatim>\<open>get_search_console_data\<close> and becomes an error-shaped
  tool result.
\<close>

theorem zero_rows_is_tool_error:
  "snd (get_search_console_data example_python
          (example_env (llm_reply monthly_text) (JObj [(''rows'', JArr [])]))
          (JObj [(''query'', JStr ''top queries last month'')]))
     = Inl (Raise PlainException ''Error processing Gemini API response: division by zero'')
   \<and> snd (handle_tool_call example_python
          (example_env (llm_reply monthly_text) (JObj [(''rows'', JArr [])])) call_params)
     = Inr (JObj [(''isError'', JBool True),
                  (''content'', JArr [JObj [(''type'', JStr ''text''),
                     (''text'', JStr ''Tool error (search_console_query): Error processing Gemini API response: division by zero'')]])])
   \<and> snd (handle_tool_call example_python
          (example_env (llm_reply monthly_text) (JObj [])) call_params)
     = Inr (JObj [(''isError'', JBool True),
                  (''content'', JArr [JObj [(''type'', JStr ''text''),
                     (''text'', JStr (''Tool error (search_console_query): Error processing Gemini API response: ''
                                      @ quote ''rows''))]])])"
  by (simp add: call_params_def handle_tool_call_def decode_arguments_def get_search_console_data_def
      try_block_empty_rows try_block_no_rows_key Let_def example_env_simps error_result_def)

subsection \<open>Cleaning the model output\<close>

lemma clean_query_single_replace: "clean_query s = replace s ''```'' []"
  by (simp add: clean_query_def Let_def)

text \<open>
  C3. \<^verbatim>\<open>clean_query\<close> should strip both the \<^verbatim>\<open>```json\<close> opening and the bare
  \<^verbatim>\<open>```\<close> delimiters, so that a fenced output parses like the unfenced one. Its
  second replacement starts again from the argument, so the result of the first is
  lost: only the backticks go, and the word \<^verbatim>\<open>json\<close> is left in front of the object.
\<close>

theorem fenced_output_keeps_json_tag:
  "clean_query fenced_text = ''json\<newline>'' @ monthly_text @ ''\<newline>''
   \<and> clean_query monthly_text = monthly_text
   \<and> clean_query fenced_text \<noteq> clean_query monthly_text"
proof -
  have a: "clean_query fenced_text = ''json\<newline>'' @ monthly_text @ ''\<newline>''"
    unfolding fenced_text_def monthly_text_def clean_query_def Let_def by code_simp
  have b: "clean_query monthly_text = monthly_text"
    unfolding monthly_text_def clean_query_def Let_def by code_simp
  show ?thesis unfolding a b by (simp add: monthly_text_def)
qed

subsection \<open>The tool list\<close>

text \<open>
  C7. \<^verbatim>\<open>tools/list\<close> returns one descriptor, named \<^verbatim>\<open>search_console_query\<close>, with a
  description and an input schema of type object that requires the string field
  \<^verbatim>\<open>query\<close> and admits no other property. Its annotation, however, is
  \<^verbatim>\<open>{"read_only": False}\<close>: it marks the tool as not read-only, although the tool
  only queries the reporting service, under the scope \<^verbatim>\<open>webmasters.readonly\<close>.
\<close>

theorem tools_list_annotation_false:
  "\<exists>description schema_description.
     (handle_tools_list :: 'f json) =
       JObj [(''tools'', JArr [
         JObj [(''name'', JStr ''search_console_query''),
               (''description'', JStr description),
               (''annotations'', JObj [(''read_only'', JBool False)]),
               (''inputSchema'', JObj [
                  (''type'', JStr ''object''),
                  (''properties'', JObj [
                     (''query'', JObj [(''type'', JStr ''string''),
                                       (''description'', JStr schema_description)])]),
                  (''required'', JArr [JStr ''query'']),
                  (''additionalProperties'', JBool False)])]])]
     \<and> description \<noteq> []"
  unfolding handle_tools_list_def by (intro exI conjI) (rule refl, simp)

subsection \<open>Credentials\<close>

text \<open>
  C9. The credential does not depend on the key argument:
  \<^verbatim>\<open>credentials_from_base64_env\<close> never reads its parameter \<^verbatim>\<open>base64_key\<close> and
  \<^verbatim>\<open>create_gsc_service_obj\<close> overwrites its own before use; both read the module
  variable \<^verbatim>\<open>gsc_base64_key\<close>. Any two arguments, of any types, give the same result.
\<close>

theorem key_argument_ignored:
  "credentials_from_base64_env py ev (k1 :: 'a) scopes = credentials_from_base64_env py ev (k2 :: 'b) scopes
   \<and> create_gsc_service_obj py ev k1 = create_gsc_service_obj py ev k2"
  by (simp add: credentials_from_base64_env_def create_gsc_service_obj_def)


subsection \<open>Binding\<close>

lemma bind_exn_Inr_iff: "bind_exn m f = Inr v \<longleftrightarrow> (\<exists>x. m = Inr x \<and> f x = Inr v)"
  by (cases m) auto

subsection \<open>The report formatter\<close>

lemma format_sends_nothing:
  "fst (format_search_console_data py ev tick data query start_date end_date api_query_obj) = []"
  by (simp add: format_search_console_data_def Let_def)

lemma format_sent_is_empty:
  "format_search_console_data py ev tick data query start_date end_date api_query_obj = (sent, r)
   \<Longrightarrow> sent = []"
  by (simp add: format_search_console_data_def Let_def)

text \<open>
  C8. The formatter is pure but for the timestamp. It sends no request; its value does
  not depend on the environment (the environment variables, the credentials, the
  services) except through the one reading of the clock that it takes; on the same
  rows, query, date range and structured query it either raises the same exception
  whatever the environment and the time, or returns texts that all begin with the same
  head, continue with the timestamp read and end with the same rest.
\<close>

theorem formatter_is_pure:
  "fst (format_search_console_data py ev tick data query start_date end_date api_query_obj) = []
   \<and> ((\<exists>e. \<forall>(ev' :: ('f, 'cred, 'svc) env) tick'.
            snd (format_search_console_data py ev' tick' data query start_date end_date api_query_obj)
            = Inl e)
      \<or> (\<exists>rest. \<forall>(ev' :: ('f, 'cred, 'svc) env) tick'.
            snd (format_search_console_data py ev' tick' data query start_date end_date api_query_obj)
            = Inr (report_head @ clock ev' tick' @ rest)))"
  by (cases "summary_section py data"; cases "table_body py data";
      cases "py_format_computed py start_date"; cases "py_format_computed py end_date";
      cases "py_format_computed py query"; cases "py_format_computed py api_query_obj")
    (simp_all add: format_search_console_data_def)

lemma decoded_format:
  "decoded_value py v \<Longrightarrow> py_format_computed py v = Inr (py_format py v)"
  by (cases v) (simp_all add: int_text_def)

lemma rows_are_report_rows:
  "map report_row_of rows = map Some rs \<Longrightarrow> list_all2 (\<lambda>row r. report_row_of row = Some r) rows rs"
  by (induction rows arbitrary: rs) auto

lemma report_row_fields:
  assumes "report_row_of row = Some r"
  shows "\<exists>ks. getitem_key row ''keys'' = Inr (JArr (JStr (rr_key r) # ks))"
    and "getitem_key row ''clicks'' = Inr (JInt (rr_clicks r))"
    and "getitem_key row ''impressions'' = Inr (JInt (rr_impressions r))"
    and "getitem_key row ''ctr'' = Inr (JFloat (rr_ctr r))"
    and "getitem_key row ''position'' = Inr (JFloat (rr_position r))"
proof -
  obtain k c i x p where
    f: "first_text_key (getitem_key row ''keys'') = Some k"
       "as_int (getitem_key row ''clicks'') = Some c"
       "as_int (getitem_key row ''impressions'') = Some i"
       "as_float (getitem_key row ''ctr'') = Some x"
       "as_float (getitem_key row ''position'') = Some p"
    and r: "r = \<lparr> rr_key = k, rr_clicks = c, rr_impressions = i, rr_ctr = x, rr_position = p \<rparr>"
    using assms by (auto simp: report_row_of_def bind_eq_Some_conv)
  show "\<exists>ks. getitem_key row ''keys'' = Inr (JArr (JStr (rr_key r) # ks))"
    using f(1) r by (cases "getitem_key row ''keys''" rule: first_text_key.cases) simp_all
  show "getitem_key row ''clicks'' = Inr (JInt (rr_clicks r))"
    using f(2) r by (cases "getitem_key row ''clicks''" rule: as_int.cases) simp_all
  show "getitem_key row ''impressions'' = Inr (JInt (rr_impressions r))"
    using f(3) r by (cases "getitem_key row ''impressions''" rule: as_int.cases) simp_all
  show "getitem_key row ''ctr'' = Inr (JFloat (rr_ctr r))"
    using f(4) r by (cases "getitem_key row ''ctr''" rule: as_float.cases) simp_all
  show "getitem_key row ''position'' = Inr (JFloat (rr_position r))"
    using f(5) r by (cases "getitem_key row ''position''" rule: as_float.cases) simp_all
qed

lemma py_sum_from_ints:
  "list_all2 (\<lambda>row x. f row = Inr (JInt x)) rows xs \<Longrightarrow>
   py_sum_from py f (JInt a) rows = Inr (JInt (a + sum_list xs))"
  by (induction rows xs arbitrary: a rule: list_all2_induct) (simp_all add: py_add_def add.assoc)

lemma sum_int_loop_ints:
  "list_all2 (\<lambda>row x. f row = Inr (JInt x)) rows xs \<Longrightarrow>
   sum_int_loop py f a rows = Inr (JInt (a + sum_list xs))"
proof (induction rows xs arbitrary: a rule: list_all2_induct)
  case Nil
  then show ?case by simp
next
  case (Cons row rows x xs)
  show ?case
    using Cons.hyps(1) Cons.IH [of "a + x"] py_sum_from_ints [OF Cons.hyps(2), of py "a + x"]
    by (simp add: py_add_def after_int_loop_def add.assoc)
qed

lemma sum_float_loop_floats:
  "list_all2 (\<lambda>row x. f row = Inr (JFloat x)) rows xs \<Longrightarrow>
   sum_float_loop py f a run rows = Inr (JFloat (float_sum py a (run @ map NFloat xs)))"
  by (induction rows xs arbitrary: run rule: list_all2_induct) (simp_all add: absorbed_def)

lemma py_sum_floats:
  assumes "list_all2 (\<lambda>row x. f row = Inr (JFloat x)) rows (x # rest)"
      and "float_of_int py 0 = Some zero"
  shows "py_sum py f rows = Inr (JFloat (float_sum py (float_add py zero x) (map NFloat rest)))"
proof -
  obtain row rows' where r: "rows = row # rows'" "f row = Inr (JFloat x)"
    "list_all2 (\<lambda>row x. f row = Inr (JFloat x)) rows' rest"
    using assms(1) by (cases rows) auto
  show ?thesis
    using sum_float_loop_floats [OF r(3), of py "float_add py zero x" "[]"] r(1,2) assms(2)
    by (simp add: py_sum_def py_add_def after_int_loop_def)
qed

lemma mean_of_floats:
  assumes "getitem_key data ''rows'' = Inr (JArr rows)"
      and "list_all2 (\<lambda>row x. getitem_key row k = Inr (JFloat x)) rows xs"
      and "float_mean py xs = Some m"
  shows "mean_of py k data = Inr (JFloat m)"
proof -
  obtain x rest where xs: "xs = x # rest"
    using assms(3) by (cases xs) (simp_all add: float_mean_def)
  have len: "length rows = Suc (length rest)"
    using assms(2) xs by (auto dest: list_all2_lengthD)
  obtain zero n where c: "float_of_int py 0 = Some zero"
    "float_of_int py (1 + int (length rest)) = Some n"
    "\<not> float_is_zero py n"
    "m = float_div py (float_sum py (float_add py zero x) (map NFloat rest)) n"
    using assms(3) xs by (auto simp: float_mean_def split: option.splits if_splits)
  show ?thesis
    using py_sum_floats [OF assms(2) [unfolded xs] c(1)] assms(1) c len
    by (simp add: mean_of_def rows_of_def py_truediv_def)
qed

lemma table_row_line:
  assumes "report_row_of row = Some r" and "float_of_int py 100 = Some hundred"
      and "within_digit_limit py (rr_clicks r)" and "within_digit_limit py (rr_impressions r)"
  shows "table_row py row = Inr (table_line py hundred r)"
proof -
  obtain ks where k: "getitem_key row ''keys'' = Inr (JArr (JStr (rr_key r) # ks))"
    using report_row_fields(1) [OF assms(1)] by blast
  show ?thesis
    using k report_row_fields(2-5) [OF assms(1)] assms(2-4)
    by (simp add: table_row_def table_line_def py_mul_def py_round2_def int_text_def)
qed

lemma table_rows_lines:
  assumes "list_all2 (\<lambda>row r. report_row_of row = Some r) rows rs"
      and "float_of_int py 100 = Some hundred"
      and "list_all (within_digit_limit py) (map rr_clicks rs)"
      and "list_all (within_digit_limit py) (map rr_impressions rs)"
  shows "map_exn (table_row py) rows = Inr (map (table_line py hundred) rs)"
  using assms(1,3,4)
  by (induction rows rs rule: list_all2_induct) (simp_all add: table_row_line [OF _ assms(2)])

text \<open>
  C4. For a non-empty row set of ReportRows (text keys, integer clicks and impressions,
  floating-point ctr and position), the formatter returns its report, and the report
  shows the exact integer sum of the clicks, the exact integer sum of the
  impressions, the arithmetic mean of the ctr fractions times 100 and the arithmetic
  mean of the positions, the two means printed with \<^verbatim>\<open>.2f\<close>, that is with two
  decimals. The means are the floating-point ones of the interpreter. The conditions on
  the interpreter are that \<open>0\<close>, \<open>100\<close> and the row count convert to floats, the
  count to a float that is not zero, and that the ints are within the limit on the
  digits of an int converted to text: the clicks and impressions of the rows, their two
  totals, and the ints inside the query, the dates and the structured query.
\<close>

theorem report_shows_sums_and_means:
  assumes "getitem_key data ''rows'' = Inr (JArr rows)" and "rows \<noteq> []"
      and "map report_row_of rows = map Some rs"
      and "float_mean py (map rr_ctr rs) = Some mean_ctr"
      and "float_mean py (map rr_position rs) = Some mean_position"
      and "float_of_int py 100 = Some hundred"
      and "within_digit_limit py (sum_list (map rr_impressions rs))"
      and "within_digit_limit py (sum_list (map rr_clicks rs))"
      and "list_all (within_digit_limit py) (map rr_clicks rs)"
      and "list_all (within_digit_limit py) (map rr_impressions rs)"
      and "decoded_value py query" and "decoded_value py start_date" and "decoded_value py end_date"
      and "decoded_value py api_query_obj"
  shows "format_search_console_data py ev tick data query start_date end_date api_query_obj =
           ([], Inr (report_head @ clock ev tick
              @ '' for the date range '' @ py_format py start_date @ '' to '' @ py_format py end_date
              @ '':    \<newline>''
              @ py_format py query @ ''\<newline>''
              @ ''\<newline>''
              @ ''The data presented below has been pulled to help answer the user'' @ [CHR 0x27]
              @ ''s question using this API payload object:\<newline>''
              @ py_format py api_query_obj @ ''\<newline>''
              @ ''\<newline>''
              @ ''Please review this data in detail and finalize the user'' @ [CHR 0x27]
              @ ''s request with an analysis of the facts presented below:\<newline>''
              @ ''\<newline>''
              @ ''Summary of metrics across selected period:\<newline>''
              @ ''  - Total Impressions: '' @ show_int (sum_list (map rr_impressions rs)) @ ''\<newline>''
              @ ''  - Total Clicks: '' @ show_int (sum_list (map rr_clicks rs)) @ ''\<newline>''
              @ ''  - Average CTR: '' @ float_fmt2f py (float_mul py mean_ctr hundred) @ ''%\<newline>''
              @ ''  - Average Rank: '' @ float_fmt2f py mean_position @ ''\<newline>''
              @ ''\<newline>''
              @ ''\<newline>''
              @ table_header @ ''\<newline>''
              @ table_divider @ ''\<newline>''
              @ join ''\<newline>'' (map (table_line py hundred) rs) @ ''\<newline>''
              @ ''\<newline>''))"
proof -
  note rel = rows_are_report_rows [OF assms(3)]
  have ints: "list_all2 (\<lambda>row x. getitem_key row ''clicks'' = Inr (JInt x)) rows (map rr_clicks rs)"
    "list_all2 (\<lambda>row x. getitem_key row ''impressions'' = Inr (JInt x)) rows (map rr_impressions rs)"
    unfolding list_all2_map2
    by (rule list_all2_mono [OF rel], erule report_row_fields)+
  have floats: "list_all2 (\<lambda>row x. getitem_key row ''ctr'' = Inr (JFloat x)) rows (map rr_ctr rs)"
    "list_all2 (\<lambda>row x. getitem_key row ''position'' = Inr (JFloat x)) rows (map rr_position rs)"
    unfolding list_all2_map2
    by (rule list_all2_mono [OF rel], erule report_row_fields)+
  have c: "total_clicks py data = Inr (JInt (sum_list (map rr_clicks rs)))"
    using assms(1) sum_int_loop_ints [OF ints(1), of py 0]
    by (simp add: total_clicks_def rows_of_def py_sum_def)
  have i: "total_impressions py data = Inr (JInt (sum_list (map rr_impressions rs)))"
    using assms(1) sum_int_loop_ints [OF ints(2), of py 0]
    by (simp add: total_impressions_def rows_of_def py_sum_def)
  have r: "avg_ctr py data = Inr (JFloat (float_mul py mean_ctr hundred))"
    using mean_of_floats [OF assms(1) floats(1) assms(4)] assms(6)
    by (simp add: avg_ctr_def py_mul_def)
  have p: "avg_position py data = Inr (JFloat mean_position)"
    using mean_of_floats [OF assms(1) floats(2) assms(5)] by (simp add: avg_position_def)
  have s: "summary_section py data =
           Inr (''Summary of metrics across selected period:\<newline>''
              @ ''  - Total Impressions: '' @ show_int (sum_list (map rr_impressions rs)) @ ''\<newline>''
              @ ''  - Total Clicks: '' @ show_int (sum_list (map rr_clicks rs)) @ ''\<newline>''
              @ ''  - Average CTR: '' @ float_fmt2f py (float_mul py mean_ctr hundred) @ ''%\<newline>''
              @ ''  - Average Rank: '' @ float_fmt2f py mean_position @ ''\<newline>'')"
    using assms(7,8) by (simp add: summary_section_def c i r p int_text_def)
  have t: "table_body py data = Inr (join ''\<newline>'' (map (table_line py hundred) rs))"
    using assms(1) table_rows_lines [OF rel assms(6,9,10)] by (simp add: table_body_def rows_of_def)
  show ?thesis
    by (simp add: format_search_console_data_def s t decoded_format [OF assms(11)]
        decoded_format [OF assms(12)] decoded_format [OF assms(13)] decoded_format [OF assms(14)])
qed

lemma example_prints:
  "show_int 50 = ''50''" "show_int 4 = ''4''"
  "show_2dp (65 / 4) = ''16.25''" "show_2dp (19 / 4) = ''4.75''"
  by code_simp+

lemma example_within_limit:
  "within_digit_limit example_python 50" "within_digit_limit example_python 4"
  "within_digit_limit example_python 3" "within_digit_limit example_python 1"
  "within_digit_limit example_python 10" "within_digit_limit example_python 40"
  "within_digit_limit example_python 25" "within_digit_limit example_python 0"
  unfolding within_digit_limit_def example_python_simps by code_simp+

lemma example_lines:
  "table_line example_python 100
     \<lparr> rr_key = ''isabelle'', rr_clicks = 3, rr_impressions = 10, rr_ctr = 3 / 10, rr_position = 5 / 2 \<rparr>
   = ''isabelle | 3 | 10 | 30.0% | 2.5''"
  "table_line example_python 100
     \<lparr> rr_key = ''hol'', rr_clicks = 1, rr_impressions = 40, rr_ctr = 1 / 40, rr_position = 7 \<rparr>
   = ''hol | 1 | 40 | 2.5% | 7.0''"
  unfolding table_line_def example_python_simps by code_simp+

theorem report_shows_sums_and_means_witness:
  "format_search_console_data example_python (example_env JNull JNull) 2
     (JObj [(''rows'', JArr two_rows)]) (JStr ''top queries last month'')
     (JStr ''2025-09-01'') (JStr ''2025-09-30'') monthly_query
   = ([], Inr (report_head @ ''2025-11-03 09:00:00''
        @ '' for the date range 2025-09-01 to 2025-09-30:    \<newline>''
        @ ''top queries last month\<newline>''
        @ ''\<newline>''
        @ ''The data presented below has been pulled to help answer the user'' @ [CHR 0x27]
        @ ''s question using this API payload object:\<newline>''
        @ ''{...}\<newline>''
        @ ''\<newline>''
        @ ''Please review this data in detail and finalize the user'' @ [CHR 0x27]
        @ ''s request with an analysis of the facts presented below:\<newline>''
        @ ''\<newline>''
        @ ''Summary of metrics across selected period:\<newline>''
        @ ''  - Total Impressions: 50\<newline>''
        @ ''  - Total Clicks: 4\<newline>''
        @ ''  - Average CTR: 16.25%\<newline>''
        @ ''  - Average Rank: 4.75\<newline>''
        @ ''\<newline>''
        @ ''\<newline>''
        @ table_header @ ''\<newline>''
        @ table_divider @ ''\<newline>''
        @ ''isabelle | 3 | 10 | 30.0% | 2.5\<newline>''
        @ ''hol | 1 | 40 | 2.5% | 7.0\<newline>''
        @ ''\<newline>''))"
proof -
  let ?rs = "[\<lparr> rr_key = ''isabelle'', rr_clicks = 3, rr_impressions = 10, rr_ctr = 3 / 10, rr_position = 5 / 2 \<rparr>,
      \<lparr> rr_key = ''hol'', rr_clicks = 1, rr_impressions = 40, rr_ctr = 1 / 40, rr_position = (7::rat) \<rparr>]"
  have r: "getitem_key (JObj [(''rows'', JArr two_rows)]) ''rows'' = Inr (JArr two_rows)" "two_rows \<noteq> []"
    by (simp_all add: two_rows_def)
  have f: "map report_row_of two_rows = map Some ?rs"
    by (simp add: two_rows_def example_row_def report_row_of_def)
  have m: "float_mean example_python (map rr_ctr ?rs) = Some (13 / 80)"
     "float_mean example_python (map rr_position ?rs) = Some (19 / 4)"
    by (simp_all add: float_mean_def example_python_simps)
  have h: "float_of_int example_python 100 = Some 100"
    by (simp add: example_python_simps)
  have d: "within_digit_limit example_python (sum_list (map rr_impressions ?rs))"
     "within_digit_limit example_python (sum_list (map rr_clicks ?rs))"
     "list_all (within_digit_limit example_python) (map rr_clicks ?rs)"
     "list_all (within_digit_limit example_python) (map rr_impressions ?rs)"
     "decoded_value example_python (JStr ''top queries last month'')"
     "decoded_value example_python (JStr ''2025-09-01'')" "decoded_value example_python (JStr ''2025-09-30'')"
     "decoded_value example_python monthly_query"
    by (simp_all add: example_within_limit monthly_query_def)
  show ?thesis
    using report_shows_sums_and_means [OF r f m h d, where ev = "example_env JNull JNull"
        and tick = 2]
    by (simp add: example_prints example_lines example_python_simps example_env_simps monthly_query_def)
qed

subsection \<open>The trend rule\<close>

lemma get_search_console_data_sent:
  assumes "get_method arguments ''query'' JNull = Inr query" and "py_truthy py query"
      and "gemini_api_key ev = Some gemini_key" and "gemini_key \<noteq> []"
  shows "fst (get_search_console_data py ev arguments)
         = fst (try_block py ev query (gemini_url gemini_key)
                 (gemini_payload py (gsc_system_prompt (clock ev 0) (clock ev 1)) (py_format py query)))"
proof -
  obtain sent r where t: "try_block py ev query (gemini_url gemini_key)
                 (gemini_payload py (gsc_system_prompt (clock ev 0) (clock ev 1)) (py_format py query)) = (sent, r)"
    by (cases "try_block py ev query (gemini_url gemini_key)
                 (gemini_payload py (gsc_system_prompt (clock ev 0) (clock ev 1)) (py_format py query))")
  show ?thesis using assms t by (cases r) (simp_all add: get_search_console_data_def Let_def)
qed

lemma get_search_console_data_sent_cases:
  "fst (get_search_console_data py ev arguments) = []
   \<or> (\<exists>query url payload. fst (get_search_console_data py ev arguments)
                            = fst (try_block py ev query url payload))"
proof (cases "get_method arguments ''query'' JNull")
  case (Inl e)
  then show ?thesis by (simp add: get_search_console_data_def)
next
  case q: (Inr query)
  show ?thesis
  proof (cases "py_truthy py query \<and> (\<exists>k. gemini_api_key ev = Some k \<and> k \<noteq> [])")
    case True
    then show ?thesis using get_search_console_data_sent [OF q] by blast
  next
    case False
    then show ?thesis using q
      by (auto simp: get_search_console_data_def split: option.splits)
  qed
qed

lemma try_block_sent:
  assumes "GscQuery site body \<in> set (fst (try_block py ev query url payload))"
  shows "\<exists>result generated.
           requests_post ev url payload = Inr result
         \<and> generated_text result = Inr (JStr generated)
         \<and> json_loads py (clean_query generated) = Inr body
         \<and> site = site_url"
proof (cases "requests_post ev url payload")
  case (Inl e)
  then show ?thesis using assms by (simp add: try_block_def)
next
  case r: (Inr result)
  show ?thesis
  proof (cases "has_candidates result")
    case (Inl e)
    then show ?thesis using assms r by (simp add: try_block_def)
  next
    case h: (Inr present)
    show ?thesis
    proof (cases present)
      case False
      then show ?thesis using assms r h by (simp add: try_block_def)
    next
      case True
      show ?thesis
      proof (cases "generated_text result")
        case (Inl e)
        then show ?thesis using assms r h True by (simp add: try_block_def)
      next
        case g: (Inr generated_api_query)
        show ?thesis
        proof (cases generated_api_query)
          case (JStr generated)
          show ?thesis
            using assms r h True g JStr
            by (auto simp: try_block_def make_gsc_api_request_def bind_exn_Inr_iff
                split: sum.splits prod.splits dest: format_sent_is_empty)
        qed (use assms r h True g in \<open>simp_all add: try_block_def\<close>)
      qed
    qed
  qed
qed

lemma trend_sent:
  "fst (try_block example_python (example_env (llm_reply trend_text) a) q url payload)
   = [GeminiPost url payload, GscQuery site_url trend_query]"
  by (auto simp: try_block_def has_candidates_def generated_text_def example_env_simps
      example_service llm_reply_def clean_trend make_gsc_api_request_def example_python_simps
      example_loads_simps trend_query_def split: prod.splits sum.splits dest: format_sent_is_empty)

lemma trend_sent_gsd:
  "fst (get_search_console_data example_python (example_env (llm_reply trend_text) a)
          (JObj [(''query'', JStr ''clicks by day for the last 90 days'')]))
   = [GeminiPost (gemini_url ''test-key'')
        (gemini_payload example_python
           (gsc_system_prompt ''2025-11-03 09:00:00'' ''2025-11-03 09:00:00'')
           ''clicks by day for the last 90 days''),
      GscQuery site_url trend_query]"
proof -
  have "fst (get_search_console_data example_python (example_env (llm_reply trend_text) a)
          (JObj [(''query'', JStr ''clicks by day for the last 90 days'')]))
    = fst (try_block example_python (example_env (llm_reply trend_text) a)
            (JStr ''clicks by day for the last 90 days'') (gemini_url ''test-key'')
            (gemini_payload example_python
              (gsc_system_prompt (clock (example_env (llm_reply trend_text) a) 0)
                 (clock (example_env (llm_reply trend_text) a) 1))
              (py_format example_python (JStr ''clicks by day for the last 90 days''))))"
    by (rule get_search_console_data_sent) (simp_all add: example_env_simps)
  then show ?thesis by (simp add: trend_sent example_env_simps)
qed

lemma trend_facts:
  "date_is_dimension trend_query"
  "getitem_key trend_query ''rowLimit'' = Inr (JInt 25)"
  by (simp_all add: date_is_dimension_def trend_query_def)

lemma trend_span: "span_of_query trend_query = Some 91"
  unfolding span_of_query_def trend_query_def by code_simp

text \<open>
  C2, as stated, fails: no step between \<^verbatim>\<open>json.loads\<close> and the request to the
  reporting service looks at \<^verbatim>\<open>rowLimit\<close>. When the model answers a query by date
  over 91 days with \<^verbatim>\<open>rowLimit\<close> 25, that query is what the service receives.
\<close>

theorem trend_rule_not_enforced:
  "GscQuery site_url trend_query
     \<in> set (fst (get_search_console_data example_python
                   (example_env (llm_reply trend_text) (JObj [(''rows'', JArr two_rows)]))
                   (JObj [(''query'', JStr ''clicks by day for the last 90 days'')])))
   \<and> date_is_dimension trend_query
   \<and> getitem_key trend_query ''rowLimit'' = Inr (JInt 25)
   \<and> span_of_query trend_query = Some 91
   \<and> trend_rule_violated trend_query"
  by (simp add: trend_sent_gsd trend_facts trend_span trend_rule_violated_def)

text \<open>
  C2, amended. Every structured query that the pipeline submits to the reporting
  service is exactly the object that \<^verbatim>\<open>json.loads\<close> gives for the cleaned text of the
  model's first candidate, sent to the module's \<^verbatim>\<open>site_url\<close>; in particular its
  \<^verbatim>\<open>rowLimit\<close> is the one the model wrote. The trend rule is an instruction in the
  prompt; whether it holds depends on the model.
\<close>

theorem submitted_query_is_model_output:
  assumes "GscQuery site body \<in> set (fst (get_search_console_data py ev arguments))"
  shows "\<exists>url payload result generated.
           requests_post ev url payload = Inr result
         \<and> generated_text result = Inr (JStr generated)
         \<and> json_loads py (clean_query generated) = Inr body
         \<and> site = site_url"
proof -
  from get_search_console_data_sent_cases [of py ev arguments] assms
  obtain query url payload where
    "GscQuery site body \<in> set (fst (try_block py ev query url payload))"
    by auto
  from try_block_sent [OF this] show ?thesis by blast
qed

theorem submitted_query_is_model_output_witness:
  "\<exists>url payload result generated.
      requests_post (example_env (llm_reply trend_text) (JObj [(''rows'', JArr two_rows)])) url payload = Inr result
    \<and> generated_text result = Inr (JStr generated)
    \<and> json_loads example_python (clean_query generated) = Inr trend_query
    \<and> site_url = site_url"
proof -
  have "GscQuery site_url trend_query
     \<in> set (fst (get_search_console_data example_python
                   (example_env (llm_reply trend_text) (JObj [(''rows'', JArr two_rows)]))
                   (JObj [(''query'', JStr ''clicks by day for the last 90 days'')])))"
    by (simp add: trend_sent_gsd)
  from submitted_query_is_model_output [OF this] show ?thesis .
qed

subsection \<open>The tool-call boundary\<close>

lemma try_block_result_is_dict:
  assumes "try_block py ev query url payload = (sent, Inr v)"
  shows "\<exists>kvs. v = JObj kvs"
  using assms
  by (auto simp: try_block_def bind_exn_Inr_iff split: sum.splits bool.splits prod.splits)

lemma get_search_console_data_result_is_dict:
  assumes "get_search_console_data py ev arguments = (sent, Inr v)"
  shows "\<exists>kvs. v = JObj kvs"
  using assms try_block_result_is_dict
  by (fastforce simp: get_search_console_data_def Let_def split: sum.splits if_splits option.splits prod.splits)

lemma text_of_result_dict: "\<exists>s. text_of_result py (JObj kvs) = Inr s"
  by (auto simp: text_of_result_def split: json.splits sum.splits option.splits)

text \<open>Whatever the arguments, a call whose \<open>params\<close> are a dict returns a result.\<close>

lemma handle_tool_call_never_raises:
  "\<exists>sent r. handle_tool_call py ev (JObj ps) = (sent, Inr r)"
proof -
  obtain tool_name arguments where g: "get_method (JObj ps) ''name'' JNull = Inr tool_name"
     "get_method (JObj ps) ''arguments'' (JObj []) = Inr arguments" by simp
  show ?thesis
  proof (cases "decode_arguments py arguments")
    case None
    then show ?thesis using g by (simp add: handle_tool_call_def)
  next
    case (Some a)
    show ?thesis
    proof (cases "tool_name = JStr ''search_console_query''")
      case False
      then show ?thesis using g Some by (simp add: handle_tool_call_def)
    next
      case True
      obtain sent r where r: "get_search_console_data py ev a = (sent, r)" by (cases "get_search_console_data py ev a")
      show ?thesis
      proof (cases r)
        case (Inl e)
        then show ?thesis using g Some True r by (simp add: handle_tool_call_def)
      next
        case (Inr v)
        then obtain kvs where "v = JObj kvs" using get_search_console_data_result_is_dict r by blast
        moreover obtain s where "text_of_result py (JObj kvs) = Inr s" using text_of_result_dict by blast
        ultimately show ?thesis using g Some True r Inr by (simp add: handle_tool_call_def)
      qed
    qed
  qed
qed

text \<open>
  C6. A \<^verbatim>\<open>tools/call\<close> request whose tool name is not \<^verbatim>\<open>search_console_query\<close>, and
  whose arguments decode, gets exactly the result
  \<^verbatim>\<open>{isError: true, content: [{type: "text", text: "Tool not found: <name>"}]}\<close> with the
  name interpolated (a name that is a str is interpolated as it is), and the pipeline is
  not entered: no request is sent to the language model or to the reporting service.
\<close>

theorem unknown_tool_not_found:
  assumes "get_method params ''name'' JNull = Inr tool_name"
      and "get_method params ''arguments'' (JObj []) = Inr arguments"
      and "tool_name \<noteq> JStr ''search_console_query''"
      and "decode_arguments py arguments \<noteq> None"
  shows "handle_tool_call py ev params =
           ([], Inr (JObj [(''isError'', JBool True),
                           (''content'', JArr [JObj [(''type'', JStr ''text''),
                              (''text'', JStr (''Tool not found: '' @ py_format py tool_name))]])]))"
  using assms by (auto simp: handle_tool_call_def error_result_def)

theorem unknown_tool_not_found_witness:
  "handle_tool_call example_python (example_env JNull JNull)
     (JObj [(''name'', JStr ''nonexistent_tool''), (''arguments'', JObj [(''query'', JStr ''top queries'')])])
   = ([], Inr (JObj [(''isError'', JBool True),
                     (''content'', JArr [JObj [(''type'', JStr ''text''),
                        (''text'', JStr ''Tool not found: nonexistent_tool'')]])]))"
  using unknown_tool_not_found [of "JObj [(''name'', JStr ''nonexistent_tool''), (''arguments'', JObj [(''query'', JStr ''top queries'')])]"
      "JStr ''nonexistent_tool''" "JObj [(''query'', JStr ''top queries'')]" example_python "example_env JNull JNull"]
  by (simp add: decode_arguments_def)

text \<open>
  C5. A \<^verbatim>\<open>tools/call\<close> request whose arguments are a string that does not decode, or
  whose decoded arguments have no \<^verbatim>\<open>query\<close> or a \<^verbatim>\<open>query\<close> that is empty (falsy),
  gets an error-shaped result \<^verbatim>\<open>{isError: true, content: [...]}\<close> that names the
  error, and no request is sent; \<^verbatim>\<open>handle_tool_call\<close> returns, it does not raise. The
  text is decided in the order of the code: undecodable arguments first, then the tool
  name, then the missing query.
\<close>

theorem bad_arguments_are_tool_errors:
  assumes "get_method params ''name'' JNull = Inr tool_name"
      and "get_method params ''arguments'' (JObj []) = Inr arguments"
      and "decode_arguments py arguments = None
           \<or> (\<exists>kvs. decode_arguments py arguments = Some (JObj kvs)
                \<and> (case map_of kvs ''query'' of None \<Rightarrow> True | Some q \<Rightarrow> \<not> py_truthy py q))"
  shows "handle_tool_call py ev params =
           ([], Inr (error_result
              (if decode_arguments py arguments = None
                 then ''Invalid arguments: expected object or JSON string.''
               else if tool_name \<noteq> JStr ''search_console_query''
                 then ''Tool not found: '' @ py_format py tool_name
               else ''Tool error (search_console_query): query is required'')))"
  using assms
  by (auto simp: handle_tool_call_def get_search_console_data_def split: option.splits)

theorem bad_arguments_are_tool_errors_witness:
  "handle_tool_call example_python (example_env JNull JNull)
     (JObj [(''name'', JStr ''search_console_query''), (''arguments'', JObj [])])
   = ([], Inr (JObj [(''isError'', JBool True),
                     (''content'', JArr [JObj [(''type'', JStr ''text''),
                        (''text'', JStr ''Tool error (search_console_query): query is required'')]])]))
   \<and> handle_tool_call example_python (example_env JNull JNull)
     (JObj [(''name'', JStr ''search_console_query''), (''arguments'', JStr ''not json'')])
   = ([], Inr (JObj [(''isError'', JBool True),
                     (''content'', JArr [JObj [(''type'', JStr ''text''),
                        (''text'', JStr ''Invalid arguments: expected object or JSON string.'')]])]))"
proof -
  have a: "decode_arguments example_python (JObj []) = Some (JObj [])"
    by (simp add: decode_arguments_def)
  have b: "decode_arguments example_python (JStr ''not json'') = None"
    by (simp add: decode_arguments_def example_python_simps example_loads_def monthly_text_def trend_text_def)
  show ?thesis
    using bad_arguments_are_tool_errors [of "JObj [(''name'', JStr ''search_console_query''), (''arguments'', JObj [])]"
        "JStr ''search_console_query''" "JObj []" example_python "example_env JNull JNull"]
      bad_arguments_are_tool_errors [of "JObj [(''name'', JStr ''search_console_query''), (''arguments'', JStr ''not json'')]"
        "JStr ''search_console_query''" "JStr ''not json''" example_python "example_env JNull JNull"]
    by (simp add: a b error_result_def)
qed

text \<open>
  C10. When the language model's response has no candidates (no \<^verbatim>\<open>candidates\<close> key,
  or an empty list), \<^verbatim>\<open>get_search_console_data\<close> returns a dict of status
  \<^verbatim>\<open>"no_results"\<close> that has no \<^verbatim>\<open>api_response\<close> key, and \<^verbatim>\<open>handle_tool_call\<close> turns
  it into the success-shaped result \<^verbatim>\<open>{content: [{type: "text", text: ""}]}\<close>: the text
  is empty and there is no \<^verbatim>\<open>isError\<close> entry.
\<close>

theorem no_candidates_gives_empty_text:
  assumes "get_method arguments ''query'' JNull = Inr query"
      and "py_truthy py query"
      and "gemini_api_key ev = Some gemini_key"
      and "gemini_key \<noteq> []"
      and "requests_post ev (gemini_url gemini_key)
             (gemini_payload py (gsc_system_prompt (clock ev 0) (clock ev 1)) (py_format py query))
           = Inr (JObj kvs)"
      and "map_of kvs ''candidates'' = None \<or> map_of kvs ''candidates'' = Some (JArr [])"
  shows "snd (get_search_console_data py ev arguments)
           = Inr (JObj [(''api_query'', JStr ''No results generated from Gemini API''),
                        (''query'', query),
                        (''status'', JStr ''no_results'')])
         \<and> snd (handle_tool_call py ev
                  (JObj [(''name'', JStr ''search_console_query''), (''arguments'', arguments)]))
           = Inr (JObj [(''content'', JArr [JObj [(''type'', JStr ''text''), (''text'', JStr [])]])])"
proof -
  have h: "has_candidates (JObj kvs) = Inr False"
    using assms(6) by (auto simp: has_candidates_def)
  have t: "try_block py ev query (gemini_url gemini_key)
             (gemini_payload py (gsc_system_prompt (clock ev 0) (clock ev 1)) (py_format py query))
           = ([GeminiPost (gemini_url gemini_key) (gemini_payload py (gsc_system_prompt (clock ev 0) (clock ev 1)) (py_format py query))],
              Inr (JObj [(''api_query'', JStr ''No results generated from Gemini API''),
                        (''query'', query),
                        (''status'', JStr ''no_results'')]))"
    using assms(5) h by (simp add: try_block_def)
  have g: "get_search_console_data py ev arguments
           = ([GeminiPost (gemini_url gemini_key) (gemini_payload py (gsc_system_prompt (clock ev 0) (clock ev 1)) (py_format py query))], Inr (JObj [(''api_query'', JStr ''No results generated from Gemini API''),
                        (''query'', query),
                        (''status'', JStr ''no_results'')]))"
    using assms(1-4) t by (simp add: get_search_console_data_def Let_def)
  have d: "decode_arguments py arguments = Some arguments"
    using assms(1) by (cases arguments) (simp_all add: decode_arguments_def)
  show ?thesis using g d
    by (simp add: handle_tool_call_def text_of_result_def text_result_def)
qed

theorem no_candidates_gives_empty_text_witness:
  "py_truthy example_python (JStr ''top queries last month'')
   \<and> snd (get_search_console_data example_python (example_env (JObj [(''candidates'', JArr [])]) JNull)
            (JObj [(''query'', JStr ''top queries last month'')]))
       = Inr (JObj [(''api_query'', JStr ''No results generated from Gemini API''),
                    (''query'', JStr ''top queries last month''),
                    (''status'', JStr ''no_results'')])
   \<and> snd (handle_tool_call example_python (example_env (JObj [(''candidates'', JArr [])]) JNull) call_params)
       = Inr (JObj [(''content'', JArr [JObj [(''type'', JStr ''text''), (''text'', JStr [])]])])"
  using no_candidates_gives_empty_text [of "JObj [(''query'', JStr ''top queries last month'')]"
      "JStr ''top queries last month''" example_python "example_env (JObj [(''candidates'', JArr [])]) JNull"
      "''test-key''" "[(''candidates'', JArr [])]"]
  by (simp add: example_env_simps call_params_def)

end
